theory Spec2Isabelle
  imports Main "HOL-Library.Option_ord" "HOL-Library.Sublist"
begin

section \<open>Strings as the handlers use them\<close>

text \<open>
  The server works on JavaScript strings. They are modelled as \<^typ>\<open>string\<close>, one
  \<^typ>\<open>char\<close> per code unit, so a text here has code units below 256 only. The case
  maps fold the letters \<open>A-Z\<close> and \<open>a-z\<close> and leave every other character alone.
  JavaScript also folds the letters beyond ASCII; since the city table and the \<open>[a-z]\<close>
  test are ASCII, \<open>getIATACode\<close> gives the same result either way, and only the
  \<open>travelClass\<close> passed on to the provider can differ.
\<close>

definition upperAZ :: string where
  "upperAZ = ''ABCDEFGHIJKLMNOPQRSTUVWXYZ''"

definition lowerAZ :: string where
  "lowerAZ = ''abcdefghijklmnopqrstuvwxyz''"

definition isLowerAZ :: "char \<Rightarrow> bool" where
  "isLowerAZ c = (c \<in> set lowerAZ)"

definition charToLower :: "char \<Rightarrow> char" where
  "charToLower c = (case map_of (zip upperAZ lowerAZ) c of Some l \<Rightarrow> l | None \<Rightarrow> c)"

definition charToUpper :: "char \<Rightarrow> char" where
  "charToUpper c = (case map_of (zip lowerAZ upperAZ) c of Some u \<Rightarrow> u | None \<Rightarrow> c)"

definition toLowerCase :: "string \<Rightarrow> string" where
  "toLowerCase s = map charToLower s"

definition toUpperCase :: "string \<Rightarrow> string" where
  "toUpperCase s = map charToUpper s"

text \<open>\<open>String.prototype.trim\<close>: tab, line feed, vertical tab, form feed, carriage
  return, space and the no-break space \<open>U+00A0\<close>, the white space and line terminators
  of JavaScript below 256, are removed from both ends.\<close>

definition whiteSpace :: string where
  "whiteSpace = [CHR 0x09, CHR 0x0A, CHR 0x0B, CHR 0x0C, CHR 0x0D, CHR '' '', CHR 0xA0]"

definition isWhiteSpace :: "char \<Rightarrow> bool" where
  "isWhiteSpace c = (c \<in> set whiteSpace)"

definition trim :: "string \<Rightarrow> string" where
  "trim s = rev (dropWhile isWhiteSpace (rev (dropWhile isWhiteSpace s)))"

section \<open>City to IATA code\<close>

text \<open>The object literal \<open>cityToIATA\<close>, in the order of the source.\<close>

definition cityToIATA :: "(string \<times> string) list" where
  "cityToIATA =
    [(''lahore'', ''LHE''), (''karachi'', ''KHI''), (''islamabad'', ''ISB''),
     (''peshawar'', ''PEW''), (''quetta'', ''UET''), (''multan'', ''MUX''),
     (''faisalabad'', ''LYP''), (''sialkot'', ''SKT''), (''gwadar'', ''GWD''),
     (''rawalpindi'', ''ISB''),
     (''dubai'', ''DXB''), (''london'', ''LHR''), (''new york'', ''JFK''),
     (''toronto'', ''YYZ''), (''jeddah'', ''JED''), (''riyadh'', ''RUH''),
     (''doha'', ''DOH''), (''abu dhabi'', ''AUH''), (''istanbul'', ''IST''),
     (''bangkok'', ''BKK''), (''kuala lumpur'', ''KUL''), (''singapore'', ''SIN''),
     (''manchester'', ''MAN''), (''birmingham'', ''BHX''), (''paris'', ''CDG''),
     (''tokyo'', ''NRT''), (''beijing'', ''PEK''), (''sydney'', ''SYD''),
     (''melbourne'', ''MEL''), (''cairo'', ''CAI''), (''muscat'', ''MCT''),
     (''kuwait'', ''KWI''), (''bahrain'', ''BAH''), (''sharjah'', ''SHJ''),
     (''medina'', ''MED''), (''makkah'', ''JED''), (''delhi'', ''DEL''),
     (''mumbai'', ''BOM''), (''dhaka'', ''DAC'')]"

text \<open>
  \<open>cityToIATA[cityLower]\<close> is a property read on a plain object: a key the object
  does not define itself is looked up on \<open>Object.prototype\<close>, whose members are
  functions (and, for \<open>__proto__\<close>, the prototype object itself). The value read is
  therefore a string of the object, an inherited member, or \<open>undefined\<close> (\<open>None\<close>).
\<close>

datatype property_value =
  Str string
| Inherited string

definition objectPrototypeKeys :: "string list" where
  "objectPrototypeKeys =
    [''constructor'', ''__proto__'', ''hasOwnProperty'', ''isPrototypeOf'',
     ''propertyIsEnumerable'', ''toLocaleString'', ''toString'', ''valueOf'',
     ''__defineGetter__'', ''__defineSetter__'', ''__lookupGetter__'',
     ''__lookupSetter__'']"

definition object_get :: "(string \<times> string) list \<Rightarrow> string \<Rightarrow> property_value option" where
  "object_get obj k =
    (case map_of obj k of
       Some v \<Rightarrow> Some (Str v)
     | None \<Rightarrow> if k \<in> set objectPrototypeKeys then Some (Inherited k) else None)"

text \<open>Truthiness of such a value: the empty string is falsy, every object is truthy.\<close>

fun truthy_value :: "property_value \<Rightarrow> bool" where
  "truthy_value (Str v) = (v \<noteq> [])"
| "truthy_value (Inherited k) = True"

text \<open>
  \<open>getIATACode\<close>. The argument is \<open>None\<close> for an absent query parameter; \<open>!city\<close>
  also holds for the empty string. The result \<open>None\<close> is \<open>null\<close>.
\<close>

definition getIATACode :: "string option \<Rightarrow> property_value option" where
  "getIATACode city =
    (case city of
       None \<Rightarrow> None
     | Some c \<Rightarrow>
         if c = [] then None
         else
           let cityLower = trim (toLowerCase c) in
           if length cityLower = 3 \<and> list_all isLowerAZ cityLower
           then Some (Str (toUpperCase cityLower))
           else (case object_get cityToIATA cityLower of
                   Some v \<Rightarrow> if truthy_value v then Some v else None
                 | None \<Rightarrow> None))"

section \<open>Numbers as text\<close>

text \<open>
  \<open>Number.prototype.toString(radix)\<close> on a non-negative integer; the digits are
  \<open>0-9a-z\<close>. The server uses the radix 10 (in its template literals) and the radix 36
  (in the booking reference). A radix outside 2..36, for which JavaScript throws, is
  never passed; the function gives the empty text there.
\<close>

definition radixDigits :: string where
  "radixDigits = ''0123456789abcdefghijklmnopqrstuvwxyz''"

function toStringRadix :: "nat \<Rightarrow> nat \<Rightarrow> string" where
  "toStringRadix radix n =
    (if radix < 2 \<or> 36 < radix then []
     else if n < radix then [radixDigits ! n]
     else toStringRadix radix (n div radix) @ [radixDigits ! (n mod radix)])"
  by pat_completeness auto
termination
  by (relation "measure (\<lambda>(radix, n). n)") auto

declare toStringRadix.simps [simp del]

text \<open>The same on any integer: a negative one is rendered with a leading minus sign.\<close>

definition Number_toString :: "nat \<Rightarrow> int \<Rightarrow> string" where
  "Number_toString radix n =
    (if n < 0 then CHR ''-'' # toStringRadix radix (nat (- n)) else toStringRadix radix (nat n))"

definition padStart :: "nat \<Rightarrow> string \<Rightarrow> string" where
  "padStart w s = replicate (w - length s) (CHR ''0'') @ s"

section \<open>Dates\<close>

text \<open>
  An instant is a number of milliseconds since the epoch, as \<open>Date.now()\<close> and
  \<open>getTime()\<close> give it. \<open>toISOString\<close> renders the UTC calendar date of an instant
  first, and \<open>.split('T')[0]\<close> keeps exactly that part: \<open>YYYY-MM-DD\<close>, or the
  year with a sign and six digits when it is outside 0..9999. An instant outside the
  range of \<open>Date\<close> makes \<open>toISOString\<close> throw a \<open>RangeError\<close>.
\<close>

definition msPerDay :: int where
  "msPerDay = 24 * 60 * 60 * 1000"

definition maxTimeValue :: int where
  "maxTimeValue = 8640000000000000"

text \<open>
  The calendar of the language definition (ECMA-262, Year Number, Month Number, Date
  Number), on a day number: the days from 1 January 1970 to 1 January of a year; the
  days of a year; the year of a day, which is the largest year that begins on or before
  the day and is found within one year of an estimate; the month (0 to 11) and the date
  (1 to 31) of a day within its year, \<open>leap\<close> being 1 in a leap year and 0 otherwise.
\<close>

definition DayFromYear :: "int \<Rightarrow> int" where
  "DayFromYear y = 365 * (y - 1970) + (y - 1969) div 4 - (y - 1901) div 100 + (y - 1601) div 400"

definition DaysInYear :: "int \<Rightarrow> int" where
  "DaysInYear y =
    (if y mod 4 \<noteq> 0 then 365 else if y mod 100 \<noteq> 0 then 366
     else if y mod 400 \<noteq> 0 then 365 else 366)"

definition YearFromDay :: "int \<Rightarrow> int" where
  "YearFromDay day =
    (let estimate = 1970 + (400 * day) div 146097 in
     if DayFromYear estimate \<le> day
     then (if DayFromYear (estimate + 1) \<le> day then estimate + 1 else estimate)
     else estimate - 1)"

definition MonthFromDay :: "int \<Rightarrow> int \<Rightarrow> int" where
  "MonthFromDay leap dayWithinYear =
    (if dayWithinYear < 31 then 0
     else if dayWithinYear < 59 + leap then 1
     else if dayWithinYear < 90 + leap then 2
     else if dayWithinYear < 120 + leap then 3
     else if dayWithinYear < 151 + leap then 4
     else if dayWithinYear < 181 + leap then 5
     else if dayWithinYear < 212 + leap then 6
     else if dayWithinYear < 243 + leap then 7
     else if dayWithinYear < 273 + leap then 8
     else if dayWithinYear < 304 + leap then 9
     else if dayWithinYear < 334 + leap then 10
     else 11)"

definition DateFromDay :: "int \<Rightarrow> int \<Rightarrow> int" where
  "DateFromDay leap dayWithinYear =
    (let month = MonthFromDay leap dayWithinYear in
     if month = 0 then dayWithinYear + 1
     else if month = 1 then dayWithinYear - 30
     else if month = 2 then dayWithinYear - 58 - leap
     else if month = 3 then dayWithinYear - 89 - leap
     else if month = 4 then dayWithinYear - 119 - leap
     else if month = 5 then dayWithinYear - 150 - leap
     else if month = 6 then dayWithinYear - 180 - leap
     else if month = 7 then dayWithinYear - 211 - leap
     else if month = 8 then dayWithinYear - 242 - leap
     else if month = 9 then dayWithinYear - 272 - leap
     else if month = 10 then dayWithinYear - 303 - leap
     else dayWithinYear - 333 - leap)"

text \<open>Year, month (1 to 12) and date of a day number.\<close>

definition civilFromDays :: "int \<Rightarrow> int \<times> int \<times> int" where
  "civilFromDays days =
    (let y = YearFromDay days;
         leap = DaysInYear y - 365;
         dayWithinYear = days - DayFromYear y
     in (y, MonthFromDay leap dayWithinYear + 1, DateFromDay leap dayWithinYear))"

definition isoYear :: "int \<Rightarrow> string" where
  "isoYear y =
    (if 0 \<le> y \<and> y \<le> 9999 then padStart 4 (toStringRadix 10 (nat y))
     else if y < 0 then CHR ''-'' # padStart 6 (toStringRadix 10 (nat (- y)))
     else CHR ''+'' # padStart 6 (toStringRadix 10 (nat y)))"

definition isoDateOfDay :: "int \<Rightarrow> string" where
  "isoDateOfDay days =
    (case civilFromDays days of
       (y, m, d) \<Rightarrow>
         isoYear y @ ''-'' @ padStart 2 (toStringRadix 10 (nat m))
         @ ''-'' @ padStart 2 (toStringRadix 10 (nat d)))"

datatype error =
  TypeError string
| RangeError string
| SyntaxError string
| CastError string
| ValidationError string
| ProviderError string
| PersistenceError string
| LibraryError string

text \<open>\<open>error.message\<close>. A \<open>TypeError\<close> carries the name of the property that was read
  on \<open>undefined\<close>; its message is worded as Node words it.\<close>

fun message :: "error \<Rightarrow> string" where
  "message (TypeError p) =
     ''Cannot read properties of undefined (reading '' @ [CHR 0x27] @ p @ [CHR 0x27] @ '')''"
| "message (RangeError m) = m"
| "message (SyntaxError m) = m"
| "message (CastError m) = m"
| "message (ValidationError m) = m"
| "message (ProviderError m) = m"
| "message (PersistenceError m) = m"
| "message (LibraryError m) = m"

definition toISODate :: "int \<Rightarrow> error + string" where
  "toISODate ms =
    (if - maxTimeValue \<le> ms \<and> ms \<le> maxTimeValue then Inr (isoDateOfDay (ms div msPerDay))
     else Inl (RangeError ''Invalid time value''))"

section \<open>JSON values\<close>

text \<open>Values that arrive in a request body or a provider response and are passed on
  as they are. Numbers are integers here.\<close>

datatype json =
  JUndefined
| JNull
| JBool bool
| JNum int
| JStr string
| JArr "json list"
| JObj "(string \<times> json) list"

fun truthy :: "json \<Rightarrow> bool" where
  "truthy JUndefined = False"
| "truthy JNull = False"
| "truthy (JBool b) = b"
| "truthy (JNum n) = (n \<noteq> 0)"
| "truthy (JStr s) = (s \<noteq> [])"
| "truthy (JArr xs) = True"
| "truthy (JObj kvs) = True"

section \<open>Flight offers of the provider\<close>

text \<open>
  The parts of a flight offer the translation reads. A field whose absence makes a read
  throw is an \<open>option\<close>; an array is a list, and reading element 0 of an empty one
  gives \<open>undefined\<close>.
\<close>

record endpoint =
  iataCode :: string
  at :: string

record segment =
  seg_departure :: "endpoint option"
  seg_arrival :: "endpoint option"
  seg_carrierCode :: string
  seg_number :: string
  seg_aircraft :: "string option"

record itinerary =
  it_duration :: "string option"
  it_segments :: "segment list"

record offer_price =
  total :: string
  price_currency :: string

record fare_detail =
  cabin :: string
  fare_class :: string

record traveler_pricing =
  fareDetailsBySegment :: "fare_detail list"

record offer =
  offer_id :: string
  itineraries :: "itinerary list"
  price_of :: "offer_price option"
  numberOfBookableSeats :: json
  travelerPricings :: "traveler_pricing list"

record provider_response =
  data :: "offer list"
  carriers :: "(string \<times> string) list option"

section \<open>The internal flight record\<close>

record segment_out =
  departure :: "endpoint option"
  arrival :: "endpoint option"
  carrierCode :: string
  flightNumber_of :: string
  aircraft :: "string option"

record FlightRecord =
  fr_id :: string
  flightNumber :: string
  airline :: property_value
  fr_from :: string
  fr_to :: string
  fromCode :: property_value
  toCode :: property_value
  departureTime :: string
  arrivalTime :: string
  departureDate :: string
  duration :: string
  price :: "int option"
  currency :: string
  stops :: string
  availableSeats :: json
  fr_class :: string
  source :: string
  bookingClass :: string
  segments :: "segment_out list"

section \<open>The search request, the provider call and the stored flights\<close>

text \<open>The query string of \<open>GET /api/flights/search\<close>: each parameter is a text or
  absent. (A repeated or bracketed parameter, which Express parses into an array or an
  object, is not modelled.)\<close>

record search_query =
  q_from :: "string option"
  q_to :: "string option"
  q_date :: "string option"
  q_returnDate :: "string option"
  q_adults :: "string option"
  q_travelClass :: "string option"

text \<open>The argument of \<open>amadeus.shopping.flightOffersSearch.get\<close>; \<open>adults\<close> is
  \<open>None\<close> for \<open>NaN\<close>.\<close>

record search_params =
  originLocationCode :: property_value
  destinationLocationCode :: property_value
  sp_departureDate :: string
  adults :: "int option"
  travelClass :: string
  currencyCode :: string
  max_offers :: nat

text \<open>A document of the \<open>Flight\<close> collection, after \<open>flightSchema\<close>. A date is an
  instant; a field the schema does not require may be missing.\<close>

record StoredFlight =
  sf_flightNumber :: string
  sf_airline :: string
  sf_from :: string
  sf_to :: string
  sf_departureTime :: "string option"
  sf_arrivalTime :: "string option"
  sf_departureDate :: "int option"
  sf_duration :: "string option"
  sf_price :: "int option"
  sf_stops :: string
  sf_totalSeats :: "int option"
  sf_availableSeats :: "int option"
  sf_class :: string
  sf_status :: string

text \<open>
  What the handler takes from its surroundings: the clock, the library functions whose
  result is not computed here (\<open>parseInt\<close>; the en-US 12-hour rendering of a timestamp
  text, which depends on the server's time zone; \<open>Math.round(parseFloat(_))\<close>, with
  \<open>None\<close> for \<open>NaN\<close>; \<open>new Date(text).getTime()\<close>, with \<open>None\<close> for an invalid
  date; the regular expression engine on a pattern that is not plain text, with
  \<open>None\<close> for a pattern that does not compile), the provider, and the \<open>Flight\<close>
  collection, which is either unreachable or a list of documents.
\<close>

record search_env =
  Date_now :: int
  parseInt :: "string \<Rightarrow> int option"
  toLocaleTimeString :: "string \<Rightarrow> string"
  roundParseFloat :: "string \<Rightarrow> int option"
  Date_parse :: "string \<Rightarrow> int option"
  regexEngine :: "string \<Rightarrow> (string \<Rightarrow> bool) option"
  flightOffersSearch :: "search_params \<Rightarrow> error + provider_response"
  Flight_collection :: "error + StoredFlight list"

text \<open>\<open>String.prototype.replace\<close> with a string pattern: the first occurrence only.\<close>

fun replace :: "string \<Rightarrow> string \<Rightarrow> string \<Rightarrow> string" where
  "replace pat rep [] = (if pat = [] then rep else [])"
| "replace pat rep (c # cs) =
     (if prefix pat (c # cs) then rep @ drop (length pat) (c # cs)
      else c # replace pat rep cs)"

text \<open>The duration of line 350: \<open>PT2H30M -> 2h 30m\<close>.\<close>

definition format_duration :: "string \<Rightarrow> string" where
  "format_duration d = replace ''M'' ''m'' (replace ''H'' ''h '' (replace ''PT'' [] d))"

definition stops_label :: "nat \<Rightarrow> string" where
  "stops_label totalSegments =
    (if totalSegments = 1 then ''Non-stop''
     else Number_toString 10 (int totalSegments - 1) @ '' Stop''
          @ (if totalSegments > 2 then ''s'' else []))"

definition capitalize :: "string \<Rightarrow> string" where
  "capitalize s = toUpperCase (take 1 s) @ toLowerCase (drop 1 s)"

definition airline_name :: "provider_response \<Rightarrow> string \<Rightarrow> property_value" where
  "airline_name response airlineCode =
    (case carriers response of
       None \<Rightarrow> Str airlineCode
     | Some dict \<Rightarrow>
         (case object_get dict airlineCode of
            Some v \<Rightarrow> if truthy_value v then v else Str airlineCode
          | None \<Rightarrow> Str airlineCode))"

definition segment_view :: "segment \<Rightarrow> segment_out" where
  "segment_view seg =
    \<lparr> departure = seg_departure seg, arrival = seg_arrival seg,
      carrierCode = seg_carrierCode seg, flightNumber_of = seg_number seg,
      aircraft = seg_aircraft seg \<rparr>"

text \<open>
  The body of \<open>response.data.map((offer, index) => ...)\<close>, lines 344 to 394, with
  its reads in the order of the source: the first read on \<open>undefined\<close> throws.
\<close>

definition translate ::
  "search_env \<Rightarrow> string \<Rightarrow> string \<Rightarrow> property_value \<Rightarrow> property_value \<Rightarrow>
   provider_response \<Rightarrow> offer \<Rightarrow> error + FlightRecord" where
  "translate env from_text to_text originCode destCode response offer =
    (case itineraries offer of
       [] \<Rightarrow> Inl (TypeError ''segments'')
     | it # _ \<Rightarrow>
    (let segs = it_segments it; totalSegments = length segs in
    (case it_duration it of
       None \<Rightarrow> Inl (TypeError ''replace'')
     | Some d \<Rightarrow>
    (case segs of
       [] \<Rightarrow> Inl (TypeError ''carrierCode'')
     | seg # _ \<Rightarrow>
    (let lastSegment = last segs in
    (case seg_departure seg of
       None \<Rightarrow> Inl (TypeError ''at'')
     | Some dep \<Rightarrow>
    (case seg_arrival lastSegment of
       None \<Rightarrow> Inl (TypeError ''at'')
     | Some arr \<Rightarrow>
    (case price_of offer of
       None \<Rightarrow> Inl (TypeError ''total'')
     | Some p \<Rightarrow>
    (case travelerPricings offer of
       [] \<Rightarrow> Inl (TypeError ''fareDetailsBySegment'')
     | tp # _ \<Rightarrow>
    (case fareDetailsBySegment tp of
       [] \<Rightarrow> Inl (TypeError ''cabin'')
     | fd # _ \<Rightarrow>
       Inr \<lparr> fr_id = ''amadeus_'' @ offer_id offer,
             flightNumber = seg_carrierCode seg @ seg_number seg,
             airline = airline_name response (seg_carrierCode seg),
             fr_from = capitalize from_text,
             fr_to = capitalize to_text,
             fromCode = originCode,
             toCode = destCode,
             departureTime = toLocaleTimeString env (at dep),
             arrivalTime = toLocaleTimeString env (at arr),
             departureDate = at dep,
             duration = format_duration d,
             price = roundParseFloat env (total p),
             currency = price_currency p,
             stops = stops_label totalSegments,
             availableSeats =
               (if truthy (numberOfBookableSeats offer) then numberOfBookableSeats offer
                else JNum 9),
             fr_class = cabin fd,
             source = ''amadeus'',
             bookingClass = fare_class fd,
             segments = map segment_view segs \<rparr>))))))))))"

text \<open>\<open>Array.prototype.map\<close> with a callback that may throw: the offers are translated
  in order and the first exception leaves the whole \<open>map\<close>.\<close>

fun map_throwing :: "('a \<Rightarrow> error + 'b) \<Rightarrow> 'a list \<Rightarrow> error + 'b list" where
  "map_throwing f [] = Inr []"
| "map_throwing f (x # xs) =
     (case f x of
        Inl e \<Rightarrow> Inl e
      | Inr y \<Rightarrow> (case map_throwing f xs of Inl e \<Rightarrow> Inl e | Inr ys \<Rightarrow> Inr (y # ys)))"

section \<open>The fallback query on stored flights\<close>

text \<open>
  \<open>new RegExp(text, 'i')\<close>. A pattern without any syntax character of the regular
  expression grammar is plain text: it always compiles, and it matches a string exactly
  when the string contains it, upper and lower case taken as equal. Any other pattern is
  left to the engine of the environment, and throws a \<open>SyntaxError\<close> when it does
  not compile.
\<close>

definition syntaxCharacters :: string where
  "syntaxCharacters = CHR 0x5C # ''^$.*+?()[]{}|''"

definition isLiteralPattern :: "string \<Rightarrow> bool" where
  "isLiteralPattern pat = list_all (\<lambda>c. c \<notin> set syntaxCharacters) pat"

datatype regex = RegExp_i string

definition new_RegExp :: "search_env \<Rightarrow> string \<Rightarrow> error + regex" where
  "new_RegExp env pat =
    (if isLiteralPattern pat then Inr (RegExp_i pat)
     else (case regexEngine env pat of
             None \<Rightarrow> Inl (SyntaxError ''Invalid regular expression'')
           | Some m \<Rightarrow> Inr (RegExp_i pat)))"

fun contains :: "string \<Rightarrow> string \<Rightarrow> bool" where
  "contains pat [] = (pat = [])"
| "contains pat (c # cs) = (prefix pat (c # cs) \<or> contains pat cs)"

definition contains_ignoring_case :: "string \<Rightarrow> string \<Rightarrow> bool" where
  "contains_ignoring_case pat s = contains (toLowerCase pat) (toLowerCase s)"

fun regex_test :: "search_env \<Rightarrow> regex \<Rightarrow> string \<Rightarrow> bool" where
  "regex_test env (RegExp_i pat) s =
    (if isLiteralPattern pat then contains_ignoring_case pat s
     else (case regexEngine env pat of None \<Rightarrow> False | Some m \<Rightarrow> m s))"

text \<open>
  The filter of lines 415 to 425. A bound of the date range is \<open>None\<close> when the
  \<open>Date\<close> is invalid: the date text did not parse, or 24 hours later is past the range
  of \<open>Date\<close>.
\<close>

record flight_query =
  fq_from :: "regex option"
  fq_to :: "regex option"
  fq_departureDate :: "(int option \<times> int option) option"

definition timeClip :: "int \<Rightarrow> int option" where
  "timeClip t = (if - maxTimeValue \<le> t \<and> t \<le> maxTimeValue then Some t else None)"

definition text_filter :: "search_env \<Rightarrow> string option \<Rightarrow> error + regex option" where
  "text_filter env param =
    (case param of
       None \<Rightarrow> Inr None
     | Some t \<Rightarrow>
         if t = [] then Inr None
         else (case new_RegExp env t of Inl e \<Rightarrow> Inl e | Inr r \<Rightarrow> Inr (Some r)))"

definition date_filter :: "search_env \<Rightarrow> string option \<Rightarrow> (int option \<times> int option) option" where
  "date_filter env param =
    (case param of
       None \<Rightarrow> None
     | Some d \<Rightarrow>
         if d = [] then None
         else (let searchDate = Date_parse env d in
               Some (searchDate,
                     (case searchDate of None \<Rightarrow> None | Some t \<Rightarrow> timeClip (t + msPerDay)))))"

definition build_query :: "search_env \<Rightarrow> search_query \<Rightarrow> error + flight_query" where
  "build_query env q =
    (case text_filter env (q_from q) of
       Inl e \<Rightarrow> Inl e
     | Inr f \<Rightarrow>
         (case text_filter env (q_to q) of
            Inl e \<Rightarrow> Inl e
          | Inr t \<Rightarrow>
              Inr \<lparr> fq_from = f, fq_to = t, fq_departureDate = date_filter env (q_date q) \<rparr>))"

text \<open>
  \<open>Flight.find(query).sort({ price: 1 })\<close>. Mongoose casts the filter first and
  rejects an invalid date; then the collection answers, or fails. A regular expression
  selects the documents whose field matches it, a range the documents whose date lies in
  it. The documents come back by ascending price, a missing price first. (MongoDB does not
  fix the order of documents of equal price; here they keep the order of the collection.)
\<close>

fun in_range :: "(int option \<times> int option) option \<Rightarrow> int option \<Rightarrow> bool" where
  "in_range None d = True"
| "in_range (Some (Some gte, Some lt)) (Some d) = (gte \<le> d \<and> d < lt)"
| "in_range (Some r) d = False"

definition selects :: "search_env \<Rightarrow> flight_query \<Rightarrow> StoredFlight \<Rightarrow> bool" where
  "selects env query f =
    ((case fq_from query of None \<Rightarrow> True | Some r \<Rightarrow> regex_test env r (sf_from f)) \<and>
     (case fq_to query of None \<Rightarrow> True | Some r \<Rightarrow> regex_test env r (sf_to f)) \<and>
     in_range (fq_departureDate query) (sf_departureDate f))"

fun castable :: "(int option \<times> int option) option \<Rightarrow> bool" where
  "castable None = True"
| "castable (Some (Some gte, Some lt)) = True"
| "castable (Some r) = False"

definition Flight_find_sorted :: "search_env \<Rightarrow> flight_query \<Rightarrow> error + StoredFlight list" where
  "Flight_find_sorted env query =
    (if \<not> castable (fq_departureDate query)
     then Inl (CastError ''Cast to date failed'')
     else (case Flight_collection env of
             Inl e \<Rightarrow> Inl e
           | Inr docs \<Rightarrow> Inr (sort_key sf_price (filter (selects env query) docs))))"

section \<open>The search handler\<close>

datatype search_body =
  ErrorBody string
| UnknownCity string "string list"
| AmadeusResult "FlightRecord list" nat string "property_value \<times> property_value \<times> string"
| DatabaseResult "StoredFlight list" nat string string
| FailedBody string string

text \<open>The calls a request makes to the systems outside the server, in order.\<close>

datatype external_call =
  ProviderSearch search_params
| FlightFind flight_query

type_synonym search_outcome = "(nat \<times> search_body) \<times> external_call list"

text \<open>The departure date of the first search a list of calls sends to the provider.\<close>

fun provider_date :: "external_call list \<Rightarrow> string option" where
  "provider_date [] = None"
| "provider_date (ProviderSearch params # later) = Some (sp_departureDate params)"
| "provider_date (FlightFind query # later) = provider_date later"

text \<open>
  The \<open>catch (error)\<close> block, lines 409 to 437: \<open>error\<close> is what the \<open>try\<close> block
  threw, \<open>calls\<close> the calls made so far.
\<close>

definition fallback :: "search_env \<Rightarrow> search_query \<Rightarrow> error \<Rightarrow> external_call list \<Rightarrow> search_outcome" where
  "fallback env q err calls =
    (case build_query env q of
       Inl dbError \<Rightarrow> ((500, FailedBody ''Failed to fetch flights'' (message err)), calls)
     | Inr query \<Rightarrow>
         (case Flight_find_sorted env query of
            Inl dbError \<Rightarrow>
              ((500, FailedBody ''Failed to fetch flights'' (message err)),
               calls @ [FlightFind query])
          | Inr flights \<Rightarrow>
              ((200, DatabaseResult flights (length flights) ''database''
                       ''Amadeus API unavailable, showing cached results''),
               calls @ [FlightFind query])))"

definition unknown_city :: "string \<Rightarrow> search_body" where
  "unknown_city name =
    UnknownCity (''Unknown city: '' @ name @ ''. Please use city name or IATA code.'')
      (map fst cityToIATA)"

definition departure_date :: "search_env \<Rightarrow> search_query \<Rightarrow> error + string" where
  "departure_date env q =
    (case q_date q of
       None \<Rightarrow> toISODate (Date_now env + 24 * 60 * 60 * 1000)
     | Some d \<Rightarrow> if d = [] then toISODate (Date_now env + 24 * 60 * 60 * 1000) else Inr d)"

definition provider_params ::
  "search_env \<Rightarrow> search_query \<Rightarrow> property_value \<Rightarrow> property_value \<Rightarrow> string \<Rightarrow> search_params" where
  "provider_params env q originCode destCode date =
    \<lparr> originLocationCode = originCode,
      destinationLocationCode = destCode,
      sp_departureDate = date,
      adults = (case q_adults q of None \<Rightarrow> Some 1 | Some a \<Rightarrow> parseInt env a),
      travelClass = toUpperCase (case q_travelClass q of None \<Rightarrow> ''ECONOMY'' | Some c \<Rightarrow> c),
      currencyCode = ''PKR'',
      max_offers = 50 \<rparr>"

text \<open>\<open>app.get('/api/flights/search', ...)\<close>, lines 300 to 438.\<close>

definition search_handler :: "search_env \<Rightarrow> search_query \<Rightarrow> search_outcome" where
  "search_handler env q =
    (case (q_from q, q_to q) of
       (Some from_text, Some to_text) \<Rightarrow>
         if from_text = [] \<or> to_text = []
         then ((400, ErrorBody ''From and To cities are required''), [])
         else
           (case getIATACode (Some from_text) of
              None \<Rightarrow> ((400, unknown_city from_text), [])
            | Some originCode \<Rightarrow>
           (case getIATACode (Some to_text) of
              None \<Rightarrow> ((400, unknown_city to_text), [])
            | Some destCode \<Rightarrow>
           (case departure_date env q of
              Inl e \<Rightarrow> fallback env q e []
            | Inr date \<Rightarrow>
           (let params = provider_params env q originCode destCode date in
           (case flightOffersSearch env params of
              Inl e \<Rightarrow> fallback env q e [ProviderSearch params]
            | Inr response \<Rightarrow>
           (case map_throwing (translate env from_text to_text originCode destCode response)
                   (data response) of
              Inl e \<Rightarrow> fallback env q e [ProviderSearch params]
            | Inr flights \<Rightarrow>
                ((200, AmadeusResult flights (length flights) ''Amadeus API''
                         (originCode, destCode, date)),
                 [ProviderSearch params])))))))
     | _ \<Rightarrow> ((400, ErrorBody ''From and To cities are required''), []))"

section \<open>Login\<close>

text \<open>A document of the \<open>User\<close> collection; \<open>u_password\<close> is the stored hash.\<close>

record user =
  u_id :: string
  u_firstName :: string
  u_lastName :: string
  u_email :: string
  u_password :: string

text \<open>The body of \<open>POST /api/auth/login\<close>: the email is a text, the password any
  value of the body, \<open>JUndefined\<close> when the body has none.\<close>

record login_request =
  l_email :: string
  l_password :: json

text \<open>
  The surroundings of the login handler: the \<open>User\<close> collection (unreachable, or its
  documents), the verdict of bcrypt on a password text and a stored hash (or the error it
  raises on a hash it cannot read), and \<open>jwt.sign\<close> on the user's id and email.
\<close>

record login_env =
  User_collection :: "error + user list"
  bcrypt_verify :: "string \<Rightarrow> string \<Rightarrow> error + bool"
  jwt_sign :: "string \<Rightarrow> string \<Rightarrow> string"

fun typeof :: "json \<Rightarrow> string" where
  "typeof JUndefined = ''undefined''"
| "typeof JNull = ''object''"
| "typeof (JBool b) = ''boolean''"
| "typeof (JNum n) = ''number''"
| "typeof (JStr s) = ''string''"
| "typeof (JArr xs) = ''object''"
| "typeof (JObj kvs) = ''object''"

text \<open>
  \<open>bcrypt.compare(s, hash)\<close> of bcryptjs, awaited: it checks its arguments first and
  rejects with \<open>Illegal arguments\<close> and their types when \<open>s\<close> is not a text (the stored
  hash always is one); only then does it hash and compare.
\<close>

definition bcrypt_compare :: "login_env \<Rightarrow> json \<Rightarrow> string \<Rightarrow> error + bool" where
  "bcrypt_compare env s hash =
    (case s of
       JStr password \<Rightarrow> bcrypt_verify env password hash
     | _ \<Rightarrow> Inl (LibraryError (''Illegal arguments: '' @ typeof s @ '', string'')))"

datatype login_body =
  LoginError string
| LoginSuccess string string "string \<times> string \<times> string \<times> string"

definition User_findOne :: "login_env \<Rightarrow> string \<Rightarrow> error + user option" where
  "User_findOne env email =
    (case User_collection env of
       Inl e \<Rightarrow> Inl e
     | Inr users \<Rightarrow> Inr (find (\<lambda>u. u_email u = email) users))"

text \<open>\<open>app.post('/api/auth/login', ...)\<close>, lines 262 to 295.\<close>

definition login_handler :: "login_env \<Rightarrow> login_request \<Rightarrow> nat \<times> login_body" where
  "login_handler env body =
    (case User_findOne env (l_email body) of
       Inl e \<Rightarrow> (500, LoginError (message e))
     | Inr None \<Rightarrow> (401, LoginError ''Invalid credentials'')
     | Inr (Some u) \<Rightarrow>
         (case bcrypt_compare env (l_password body) (u_password u) of
            Inl e \<Rightarrow> (500, LoginError (message e))
          | Inr isValid \<Rightarrow>
              if \<not> isValid then (401, LoginError ''Invalid credentials'')
              else (200, LoginSuccess ''Login successful'' (jwt_sign env (u_id u) (u_email u))
                           (u_id u, u_firstName u, u_lastName u, u_email u))))"

section \<open>Bookings\<close>

text \<open>A document of the \<open>Booking\<close> collection. The fields taken from the request body
  and from the token are passed on as they arrive.\<close>

record Booking =
  bookingReference :: string
  userId :: json
  bookingType :: json
  serviceId :: json
  customerInfo :: json
  bookingDetails :: json
  totalAmount :: json
  paymentStatus :: string
  bookingStatus :: string

record booking_request =
  authorization :: "string option"
  b_bookingType :: json
  b_serviceId :: json
  b_customerInfo :: json
  b_bookingDetails :: json
  b_totalAmount :: json

text \<open>
  The surroundings of the booking route: the clock, \<open>jwt.verify\<close> (the \<open>id\<close> of the
  token's payload, or an error), and the part of \<open>booking.save()\<close> that the schema's
  \<open>required\<close> and \<open>enum\<close> rules do not decide (casting the identifiers and the amount,
  the unique index on the reference, the connection): \<open>Some\<close> error when the document
  is refused.
\<close>

record booking_env =
  clock :: int
  jwt_verify :: "string \<Rightarrow> error + json"
  store_refuses :: "Booking \<Rightarrow> Booking list \<Rightarrow> error option"

datatype booking_body =
  BookingError string
| BookingCreated string Booking

text \<open>\<open>String.prototype.split(' ')\<close>.\<close>

fun split_space :: "string \<Rightarrow> string list" where
  "split_space [] = [[]]"
| "split_space (c # cs) =
     (if c = CHR '' '' then [] # split_space cs
      else (case split_space cs of
              [] \<Rightarrow> [[c]]
            | w # ws \<Rightarrow> (c # w) # ws))"

text \<open>\<open>authenticateToken\<close>, lines 206 to 219: the response that ends the request, or
  the \<open>id\<close> of \<open>req.user\<close>.\<close>

definition authenticateToken :: "booking_env \<Rightarrow> string option \<Rightarrow> (nat \<times> booking_body) + json" where
  "authenticateToken env authHeader =
    (case authHeader of
       None \<Rightarrow> Inl (401, BookingError ''Access token required'')
     | Some h \<Rightarrow>
         if h = [] then Inl (401, BookingError ''Access token required'')
         else (case split_space h of
                 _ # token # _ \<Rightarrow>
                   if token = [] then Inl (401, BookingError ''Access token required'')
                   else (case jwt_verify env token of
                           Inl err \<Rightarrow> Inl (403, BookingError ''Invalid token'')
                         | Inr uid \<Rightarrow> Inr uid)
               | _ \<Rightarrow> Inl (401, BookingError ''Access token required'')))"

definition bookingTypes :: "string list" where
  "bookingTypes = [''flight'', ''car'', ''tour'', ''transportation'']"

definition paymentStatuses :: "string list" where
  "paymentStatuses = [''pending'', ''completed'', ''failed'']"

definition bookingStatuses :: "string list" where
  "bookingStatuses = [''confirmed'', ''cancelled'', ''completed'']"

definition present :: "json \<Rightarrow> bool" where
  "present v = (v \<noteq> JUndefined \<and> v \<noteq> JNull)"

text \<open>The \<open>required\<close> and \<open>enum\<close> rules of \<open>bookingSchema\<close>, lines 184 to 200.\<close>

definition schema_valid :: "Booking \<Rightarrow> bool" where
  "schema_valid b =
    (bookingReference b \<noteq> [] \<and> present (userId b) \<and>
     bookingType b \<in> JStr ` set bookingTypes \<and> present (serviceId b) \<and>
     paymentStatus b \<in> set paymentStatuses \<and> bookingStatus b \<in> set bookingStatuses)"

definition Booking_save :: "booking_env \<Rightarrow> Booking list \<Rightarrow> Booking \<Rightarrow> error + Booking list" where
  "Booking_save env stored b =
    (if \<not> schema_valid b then Inl (ValidationError ''Booking validation failed'')
     else (case store_refuses env b stored of
             Some e \<Rightarrow> Inl e
           | None \<Rightarrow> Inr (stored @ [b])))"

text \<open>The handler of \<open>POST /api/bookings\<close>, lines 588 to 615, on the bookings stored so
  far; it returns the response and the bookings stored afterwards.\<close>

definition booking_handler ::
  "booking_env \<Rightarrow> Booking list \<Rightarrow> json \<Rightarrow> booking_request \<Rightarrow> (nat \<times> booking_body) \<times> Booking list" where
  "booking_handler env stored uid req =
    (let booking =
       \<lparr> bookingReference = ''BK'' @ toUpperCase (Number_toString 36 (clock env)),
         userId = uid,
         bookingType = b_bookingType req,
         serviceId = b_serviceId req,
         customerInfo = b_customerInfo req,
         bookingDetails = b_bookingDetails req,
         totalAmount = b_totalAmount req,
         paymentStatus = ''completed'',
         bookingStatus = ''confirmed'' \<rparr>
     in (case Booking_save env stored booking of
           Inl e \<Rightarrow> ((500, BookingError (message e)), stored)
         | Inr stored' \<Rightarrow> ((201, BookingCreated ''Booking created successfully'' booking), stored')))"

definition bookings_route ::
  "booking_env \<Rightarrow> Booking list \<Rightarrow> booking_request \<Rightarrow> (nat \<times> booking_body) \<times> Booking list" where
  "bookings_route env stored req =
    (case authenticateToken env (authorization req) of
       Inl response \<Rightarrow> (response, stored)
     | Inr uid \<Rightarrow> booking_handler env stored uid req)"

section \<open>The fallback selection as the specification words it\<close>

text \<open>
  Stated apart from the code, to be compared with it: the stored flights whose origin and
  destination contain the query texts, upper and lower case taken as equal, and, when a
  window starts at instant \<open>t\<close>, whose departure lies in the 24 hours from \<open>t\<close> on.
\<close>

definition spec_selection :: "string \<Rightarrow> string \<Rightarrow> int option \<Rightarrow> StoredFlight list \<Rightarrow> StoredFlight list" where
  "spec_selection from_text to_text window docs =
    filter (\<lambda>d. sublist (toLowerCase from_text) (toLowerCase (sf_from d)) \<and>
                sublist (toLowerCase to_text) (toLowerCase (sf_to d)) \<and>
                (case window of
                   None \<Rightarrow> True
                 | Some t \<Rightarrow>
                     (case sf_departureDate d of
                        None \<Rightarrow> False
                      | Some x \<Rightarrow> t \<le> x \<and> x < t + 24 * 60 * 60 * 1000))) docs"

text \<open>The start of the window a request asks for: none without a date text; the instant
  the date text denotes; or no valid query at all, when the text denotes no date or the
  end of the window is past the range of dates.\<close>

definition spec_window :: "search_env \<Rightarrow> search_query \<Rightarrow> int option option" where
  "spec_window env q =
    (case q_date q of
       None \<Rightarrow> Some None
     | Some d \<Rightarrow>
         if d = [] then Some None
         else (case Date_parse env d of
                 None \<Rightarrow> None
               | Some t \<Rightarrow>
                   if - maxTimeValue \<le> t + 24 * 60 * 60 * 1000 \<and>
                      t + 24 * 60 * 60 * 1000 \<le> maxTimeValue
                   then Some (Some t) else None))"

section \<open>The calendar date as the specification words it\<close>

text \<open>
  Stated apart from the code, to be compared with it: the Gregorian leap years, the
  lengths of years and months, the number of days from 1 January 1970 to a date (the
  whole years before it, the whole months before it in its year, and its days before it
  in its month), and the text \<open>YYYY-MM-DD\<close> of a date, digit by digit.
\<close>

definition leap_year :: "int \<Rightarrow> bool" where
  "leap_year y = (y mod 4 = 0 \<and> (y mod 100 \<noteq> 0 \<or> y mod 400 = 0))"

definition year_length :: "int \<Rightarrow> int" where
  "year_length y = (if leap_year y then 366 else 365)"

definition month_length :: "int \<Rightarrow> int \<Rightarrow> int" where
  "month_length y m =
    (if m = 2 then (if leap_year y then 29 else 28)
     else if m \<in> {4, 6, 9, 11} then 30 else 31)"

definition days_before_month :: "int \<Rightarrow> int \<Rightarrow> int" where
  "days_before_month y m = sum_list (map (month_length y) [1..m - 1])"

definition civil_day_number :: "int \<Rightarrow> int \<Rightarrow> int \<Rightarrow> int" where
  "civil_day_number y m d =
    sum_list (map year_length [1970..y - 1]) + days_before_month y m + (d - 1)"

definition decimal_digit :: "int \<Rightarrow> char" where
  "decimal_digit k = ''0123456789'' ! nat k"

definition date_text :: "int \<Rightarrow> int \<Rightarrow> int \<Rightarrow> string" where
  "date_text y m d =
    [decimal_digit (y div 1000), decimal_digit (y div 100 mod 10),
     decimal_digit (y div 10 mod 10), decimal_digit (y mod 10), CHR ''-'',
     decimal_digit (m div 10), decimal_digit (m mod 10), CHR ''-'',
     decimal_digit (d div 10), decimal_digit (d mod 10)]"

section \<open>Example requests and surroundings\<close>

text \<open>Concrete inputs on which the properties below are evaluated. Instants are small:
  \<open>21600000\<close> is 1970-01-01T06:00Z, \<open>43200000\<close> is 1970-01-01T12:00Z and
  \<open>108000000\<close> is 1970-01-02T06:00Z.\<close>

definition stored_flight :: "string \<Rightarrow> string \<Rightarrow> string \<Rightarrow> int \<Rightarrow> int \<Rightarrow> StoredFlight" where
  "stored_flight number from_city to_city departs cost =
    \<lparr> sf_flightNumber = number, sf_airline = ''PIA'', sf_from = from_city, sf_to = to_city,
      sf_departureTime = None, sf_arrivalTime = None, sf_departureDate = Some departs,
      sf_duration = None, sf_price = Some cost, sf_stops = ''Non-stop'',
      sf_totalSeats = None, sf_availableSeats = None, sf_class = ''Economy'',
      sf_status = ''scheduled'' \<rparr>"

definition flight_early :: StoredFlight where
  "flight_early = stored_flight ''PK201'' ''Lahore'' ''Dubai'' 21600000 300"

definition flight_noon :: StoredFlight where
  "flight_noon = stored_flight ''PK203'' ''Lahore'' ''Dubai'' 43200000 200"

definition flight_next_day :: StoredFlight where
  "flight_next_day = stored_flight ''PK205'' ''Lahore'' ''Dubai'' 108000000 100"

definition flight_elsewhere :: StoredFlight where
  "flight_elsewhere = stored_flight ''PK301'' ''Karachi'' ''Doha'' 43200000 50"

definition example_parse :: "string \<Rightarrow> int option" where
  "example_parse t =
    (if t = ''1970-01-01'' then Some 0
     else if t = ''1970-01-01T12:00:00Z'' then Some 43200000
     else None)"

definition provider_down :: search_env where
  "provider_down =
    \<lparr> Date_now = 43200000,
      parseInt = (\<lambda>t. None),
      toLocaleTimeString = (\<lambda>t. t),
      roundParseFloat = (\<lambda>t. None),
      Date_parse = example_parse,
      regexEngine = (\<lambda>p. None),
      flightOffersSearch = (\<lambda>p. Inl (ProviderError ''network'')),
      Flight_collection =
        Inr [flight_early, flight_noon, flight_next_day, flight_elsewhere] \<rparr>"

definition search_lahore_dubai :: "string option \<Rightarrow> search_query" where
  "search_lahore_dubai date =
    \<lparr> q_from = Some ''LAHORE'', q_to = Some ''dubai'', q_date = date, q_returnDate = None,
      q_adults = None, q_travelClass = None \<rparr>"

definition good_segment :: segment where
  "good_segment =
    \<lparr> seg_departure = Some \<lparr> iataCode = ''LHE'', at = ''1970-01-02T06:00:00'' \<rparr>,
      seg_arrival = Some \<lparr> iataCode = ''DXB'', at = ''1970-01-02T09:00:00'' \<rparr>,
      seg_carrierCode = ''PK'', seg_number = ''205'', seg_aircraft = Some ''320'' \<rparr>"

definition good_offer :: offer where
  "good_offer =
    \<lparr> offer_id = ''1'',
      itineraries = [\<lparr> it_duration = Some ''PT3H'', it_segments = [good_segment] \<rparr>],
      price_of = Some \<lparr> total = ''100.00'', price_currency = ''PKR'' \<rparr>,
      numberOfBookableSeats = JNum 0,
      travelerPricings =
        [\<lparr> fareDetailsBySegment = [\<lparr> cabin = ''ECONOMY'', fare_class = ''Y'' \<rparr>] \<rparr>] \<rparr>"

definition offer_without_fare_detail :: offer where
  "offer_without_fare_detail =
    good_offer \<lparr> offer_id := ''2'', travelerPricings := [\<lparr> fareDetailsBySegment = [] \<rparr>] \<rparr>"

definition provider_up :: "offer list \<Rightarrow> search_env" where
  "provider_up offers =
    provider_down \<lparr> flightOffersSearch := (\<lambda>p. Inr \<lparr> data = offers, carriers = None \<rparr>) \<rparr>"

definition example_users :: "user list" where
  "example_users =
    [\<lparr> u_id = ''u1'', u_firstName = ''Ada'', u_lastName = ''Khan'',
       u_email = ''ada@example.com'', u_password = ''hash:secret'' \<rparr>]"

definition example_login_env :: login_env where
  "example_login_env =
    \<lparr> User_collection = Inr example_users,
      bcrypt_verify = (\<lambda>password h. Inr (h = ''hash:'' @ password)),
      jwt_sign = (\<lambda>i e. ''token:'' @ i) \<rparr>"



section \<open>Properties of the normalizer\<close>

lemmas string_defs =
  trim_def toLowerCase_def toUpperCase_def charToLower_def charToUpper_def
  isWhiteSpace_def whiteSpace_def isLowerAZ_def lowerAZ_def upperAZ_def

lemma cityToIATA_values_truthy: "map_of cityToIATA k = Some v \<Longrightarrow> v \<noteq> []"
  by (drule map_of_SomeD) (auto simp: cityToIATA_def)

text \<open>What \<open>getIATACode\<close> returns, case by case. The last but one case is the read of an
  inherited member of \<open>Object.prototype\<close>.\<close>

lemma getIATACode_unfolded:
  "getIATACode city =
    (case city of
       None \<Rightarrow> None
     | Some c \<Rightarrow>
         if c = [] then None
         else if length (trim (toLowerCase c)) = 3 \<and> list_all isLowerAZ (trim (toLowerCase c))
         then Some (Str (toUpperCase (trim (toLowerCase c))))
         else (case map_of cityToIATA (trim (toLowerCase c)) of
                 Some code \<Rightarrow> Some (Str code)
               | None \<Rightarrow>
                   if trim (toLowerCase c) \<in> set objectPrototypeKeys
                   then Some (Inherited (trim (toLowerCase c)))
                   else None))"
  by (auto simp: getIATACode_def object_get_def Let_def
        dest: cityToIATA_values_truthy split: option.splits)

lemma getIATACode_table_example: "getIATACode (Some ''  LaHore '') = Some (Str ''LHE'')"
  by (simp add: getIATACode_def object_get_def cityToIATA_def string_defs)

lemma getIATACode_passthrough_example: "getIATACode (Some '' xyz'') = Some (Str ''XYZ'')"
  by (simp add: getIATACode_def string_defs)

text \<open>
  C2. The claim: an input that is not a three-letter code and is absent from the city
  table yields none. The code reads the table with \<open>cityToIATA[cityLower]\<close>, and for the
  input \<open>constructor\<close>, which is no key of the table, that read gives the inherited
  \<open>Object.prototype.constructor\<close>, a truthy value, which \<open>getIATACode\<close> returns
  in place of \<open>null\<close>.
\<close>

theorem getIATACode_constructor:
  "map_of cityToIATA ''constructor'' = None \<and>
   getIATACode (Some ''constructor'') = Some (Inherited ''constructor'')"
  by (simp add: getIATACode_def object_get_def cityToIATA_def objectPrototypeKeys_def
        string_defs)

section \<open>Properties of the translation\<close>

lemma replace_first_char:
  "c \<notin> set xs \<Longrightarrow> replace [c] rep (xs @ c # ys) = xs @ rep @ ys"
  by (induction xs) auto

lemma replace_absent_char: "c \<notin> set xs \<Longrightarrow> replace [c] rep xs = xs"
  by (induction xs) auto

text \<open>A duration with hours and minutes is rendered as the comment of line 349 says.\<close>

lemma format_duration_hours_minutes:
  assumes "CHR ''H'' \<notin> set h" "CHR ''M'' \<notin> set h" "CHR ''M'' \<notin> set m"
  shows "format_duration (''PT'' @ h @ ''H'' @ m @ ''M'') = h @ ''h '' @ m @ ''m''"
proof -
  have 1: "replace ''PT'' [] (''PT'' @ h @ ''H'' @ m @ ''M'') = h @ ''H'' @ m @ ''M''"
    by simp
  have 2: "replace ''H'' ''h '' (h @ ''H'' @ m @ ''M'') = h @ ''h '' @ m @ ''M''"
    using replace_first_char [OF assms(1), of "''h ''" "m @ ''M''"] by simp
  have 3: "CHR ''M'' \<notin> set (h @ ''h '' @ m)"
    using assms by simp
  have 4: "replace ''M'' ''m'' ((h @ ''h '' @ m) @ CHR ''M'' # []) = (h @ ''h '' @ m) @ ''m'' @ []"
    by (rule replace_first_char [OF 3])
  show ?thesis
    unfolding format_duration_def 1 2 using 4 by simp
qed

text \<open>A duration with hours only keeps the blank that was meant to separate the
  minutes.\<close>

lemma format_duration_hours_only:
  assumes "CHR ''H'' \<notin> set h" "CHR ''M'' \<notin> set h"
  shows "format_duration (''PT'' @ h @ ''H'') = h @ ''h ''"
proof -
  have 1: "replace ''PT'' [] (''PT'' @ h @ ''H'') = h @ ''H''"
    by simp
  have 2: "replace ''H'' ''h '' (h @ ''H'') = h @ ''h ''"
    using replace_first_char [OF assms(1), of "''h ''" "[]"] by simp
  have 3: "CHR ''M'' \<notin> set (h @ ''h '')"
    using assms by simp
  show ?thesis
    unfolding format_duration_def 1 2 by (rule replace_absent_char [OF 3])
qed

lemma format_duration_example: "format_duration ''PT2H30M'' = ''2h 30m''"
  by (simp add: format_duration_def)

text \<open>
  C4. The claim: a duration with hours and no minutes is rendered with the minutes
  component left out gracefully. The code renders \<open>PT2H\<close> as \<open>2h\<close> followed by a
  blank: the replacement text of \<open>H\<close> carries the separator of a minutes component that
  is not there.
\<close>

theorem format_duration_PT2H:
  "format_duration ''PT2H'' = ''2h '' \<and> format_duration ''PT2H'' \<noteq> ''2h''"
  by (simp add: format_duration_def)

lemma toStringRadix_one: "toStringRadix 10 (Suc 0) = ''1''"
  by (simp add: toStringRadix.simps [of 10 "Suc 0"] radixDigits_def)

lemma stops_label_cases:
  "stops_label n =
     (if n = 1 then ''Non-stop'' else if n = 2 then ''1 Stop''
      else if n = 0 then ''-1 Stop''
      else toStringRadix 10 (n - 1) @ '' Stops'')"
  by (auto simp: stops_label_def Number_toString_def toStringRadix_one nat_diff_distrib')

lemma stops_label_examples:
  "stops_label 1 = ''Non-stop''" "stops_label 2 = ''1 Stop''" "stops_label 3 = ''2 Stops''"
  by (simp_all add: stops_label_cases toStringRadix.simps [of 10 2] radixDigits_def)

text \<open>What a successful translation says about the offer and the record.\<close>

lemma translate_InrD:
  assumes "translate env f t oc dc resp offer = Inr flight"
  obtains it rest seg segs where "itineraries offer = it # rest" "it_segments it = seg # segs"
    "stops flight = stops_label (length (it_segments it))"
    "availableSeats flight =
       (if truthy (numberOfBookableSeats offer) then numberOfBookableSeats offer else JNum 9)"
  using assms
  by (auto simp: translate_def Let_def split: list.splits option.splits)

lemma translate_good_offer:
  "\<exists>flight. translate provider_down ''LAHORE'' ''dubai'' (Str ''LHE'') (Str ''DXB'')
      \<lparr> data = [good_offer], carriers = None \<rparr> good_offer = Inr flight"
  by (simp add: translate_def good_offer_def good_segment_def Let_def)

text \<open>
  C7. For every translated offer the stops label is a function of the number of segments
  of its first itinerary alone: one segment gives \<open>Non-stop\<close>, two give \<open>1 Stop\<close>, and
  \<open>N > 2\<close> give \<open>N - 1\<close> in decimal followed by \<open>Stops\<close>. (A translated offer has at
  least one segment.)
\<close>

theorem stops_from_segment_count:
  assumes "translate env from_text to_text originCode destCode response offer = Inr flight"
  shows "\<exists>it rest. itineraries offer = it # rest \<and> 1 \<le> length (it_segments it) \<and>
           stops flight =
             (if length (it_segments it) = 1 then ''Non-stop''
              else if length (it_segments it) = 2 then ''1 Stop''
              else toStringRadix 10 (length (it_segments it) - 1) @ '' Stops'')"
proof -
  from assms obtain it rest seg segs where
    it: "itineraries offer = it # rest" and segs: "it_segments it = seg # segs" and
    st: "stops flight = stops_label (length (it_segments it))"
    by (rule translate_InrD)
  from segs have "length (it_segments it) \<noteq> 0" by simp
  with st have "stops flight =
             (if length (it_segments it) = 1 then ''Non-stop''
              else if length (it_segments it) = 2 then ''1 Stop''
              else toStringRadix 10 (length (it_segments it) - 1) @ '' Stops'')"
    by (simp add: stops_label_cases)
  with it segs show ?thesis by simp
qed

theorem stops_from_segment_count_witness:
  "\<exists>flight. translate provider_down ''LAHORE'' ''dubai'' (Str ''LHE'') (Str ''DXB'')
      \<lparr> data = [good_offer], carriers = None \<rparr> good_offer = Inr flight \<and>
     stops flight = ''Non-stop''"
proof -
  from translate_good_offer obtain flight where
    t: "translate provider_down ''LAHORE'' ''dubai'' (Str ''LHE'') (Str ''DXB'')
      \<lparr> data = [good_offer], carriers = None \<rparr> good_offer = Inr flight" ..
  from stops_from_segment_count [OF t] have "stops flight = ''Non-stop''"
    by (simp add: good_offer_def good_segment_def)
  with t show ?thesis by blast
qed

lemma falsy_iff: "\<not> truthy v \<longleftrightarrow> v \<in> {JUndefined, JNull, JBool False, JNum 0, JStr []}"
  by (cases v) auto

text \<open>
  C10. For every translated offer, \<open>availableSeats\<close> is 9 when the provider's
  \<open>numberOfBookableSeats\<close> is absent or another falsy value (\<open>null\<close>, \<open>false\<close>, zero,
  the empty text), and is the provider's value otherwise.
\<close>

theorem availableSeats_default:
  assumes "translate env from_text to_text originCode destCode response offer = Inr flight"
  shows "availableSeats flight =
           (if numberOfBookableSeats offer \<in> {JUndefined, JNull, JBool False, JNum 0, JStr []}
            then JNum 9 else numberOfBookableSeats offer)"
proof -
  from assms have "availableSeats flight =
       (if truthy (numberOfBookableSeats offer) then numberOfBookableSeats offer else JNum 9)"
    by (rule translate_InrD)
  then show ?thesis
    using falsy_iff [of "numberOfBookableSeats offer"] by (simp split: if_splits)
qed

theorem availableSeats_default_witness:
  "\<exists>flight. translate provider_down ''LAHORE'' ''dubai'' (Str ''LHE'') (Str ''DXB'')
      \<lparr> data = [good_offer], carriers = None \<rparr> good_offer = Inr flight \<and>
     availableSeats flight = JNum 9"
proof -
  from translate_good_offer obtain flight where
    t: "translate provider_down ''LAHORE'' ''dubai'' (Str ''LHE'') (Str ''DXB'')
      \<lparr> data = [good_offer], carriers = None \<rparr> good_offer = Inr flight" ..
  from availableSeats_default [OF t] have "availableSeats flight = JNum 9"
    by (simp add: good_offer_def)
  with t show ?thesis by blast
qed

section \<open>Properties of the calendar\<close>

text \<open>
  A quotient grows by one exactly at the multiples of the divisor; hence the three
  corrections of \<^term>\<open>DayFromYear\<close> grow exactly after the years divisible by 4, by 100
  and by 400.
\<close>

lemma div_step:
  fixes x c :: int
  assumes "0 < c"
  shows "x div c - (x - 1) div c = (if x mod c = 0 then 1 else 0)"
proof (cases "x mod c = 0")
  case True
  have x: "x = c * (x div c)" using True by (metis mult_div_mod_eq add.right_neutral)
  have "x - 1 = c * (x div c - 1) + (c - 1)"
    using x by (simp add: algebra_simps)
  moreover have "0 \<le> c - 1" "c - 1 < c" using assms by simp_all
  ultimately have "(x - 1) div c = x div c - 1" by (rule int_div_pos_eq)
  with True show ?thesis by simp
next
  case False
  have r: "0 \<le> x mod c" "x mod c < c" using assms by simp_all
  with False have r1: "0 \<le> x mod c - 1" "x mod c - 1 < c" by simp_all
  have "x - 1 = c * (x div c) + (x mod c - 1)" by simp
  then have "(x - 1) div c = x div c" using r1 by (rule int_div_pos_eq)
  with False show ?thesis by simp
qed

lemma mod_shift: "(y - c * k) mod c = y mod c" for y c k :: int
proof -
  have "y - c * k = y + c * (- k)" by simp
  then show ?thesis by (simp only: mod_mult_self2)
qed

lemma div_step_shift:
  fixes y c k :: int
  assumes "0 < c"
  shows "(y - c * k) div c - (y - c * k - 1) div c = (if y mod c = 0 then 1 else 0)"
  using div_step [OF assms, of "y - c * k"] by (simp only: mod_shift)

lemma d4: "(y - 1968) div 4 - (y - 1969) div 4 = (if y mod 4 = 0 then 1 else 0)" for y :: int
proof -
  have a: "y - 1968 = y - 4 * 492" "y - 1969 = y - 4 * 492 - 1" by linarith+
  show ?thesis unfolding a by (rule div_step_shift) linarith
qed

lemma div_bounds:
  fixes x c :: int
  assumes "0 < c"
  shows "c * (x div c) \<le> x" "x < c * (x div c) + c"
proof -
  have "x = c * (x div c) + x mod c" by simp
  moreover have "0 \<le> x mod c" "x mod c < c" using assms by simp_all
  ultimately show "c * (x div c) \<le> x" "x < c * (x div c) + c" by linarith+
qed

lemma d100: "(y - 1900) div 100 - (y - 1901) div 100 = (if y mod 100 = 0 then 1 else 0)" for y :: int
proof -
  have a: "y - 1900 = y - 100 * 19" "y - 1901 = y - 100 * 19 - 1" by linarith+
  show ?thesis unfolding a by (rule div_step_shift) linarith
qed

lemma d400: "(y - 1600) div 400 - (y - 1601) div 400 = (if y mod 400 = 0 then 1 else 0)" for y :: int
proof -
  have a: "y - 1600 = y - 400 * 4" "y - 1601 = y - 400 * 4 - 1" by linarith+
  show ?thesis unfolding a by (rule div_step_shift) linarith
qed

lemma mod_multiple:
  fixes y a b :: int
  assumes "y mod (a * b) = 0"
  shows "y mod a = 0"
proof -
  from assms have "a * b dvd y" by (rule mod_0_imp_dvd)
  then obtain q where "y = a * b * q" by (rule dvdE)
  then have "y = a * (b * q)" by (simp only: mult.assoc)
  then show ?thesis by (simp only: mod_mult_self1_is_0)
qed

lemma mod_100_4: "y mod 100 = 0 \<Longrightarrow> y mod 4 = 0" for y :: int
  using mod_multiple [of y 4 25] by simp

lemma mod_400_100: "y mod 400 = 0 \<Longrightarrow> y mod 100 = 0" for y :: int
  using mod_multiple [of y 100 4] by simp

text \<open>
  The days of a year are the length of the year, and \<^term>\<open>DayFromYear\<close> counts the
  lengths of the years since 1970.
\<close>

lemma DaysInYear_year_length: "DaysInYear y = year_length y"
  by (auto simp: DaysInYear_def year_length_def leap_year_def dest: mod_100_4 mod_400_100)

lemma DayFromYear_step: "DayFromYear (y + 1) = DayFromYear y + year_length y"
proof -
  define a b c a' b' c' where
    "a = (y - 1968) div 4" and "b = (y - 1900) div 100" and "c = (y - 1600) div 400" and
    "a' = (y - 1969) div 4" and "b' = (y - 1901) div 100" and "c' = (y - 1601) div 400"
  have s: "y + 1 - 1970 = y - 1969" "y + 1 - 1969 = y - 1968" "y + 1 - 1901 = y - 1900"
    "y + 1 - 1601 = y - 1600" by linarith+
  have n: "DayFromYear (y + 1) = 365 * (y - 1969) + a - b + c"
    unfolding DayFromYear_def s a_def b_def c_def ..
  have o: "DayFromYear y = 365 * (y - 1970) + a' - b' + c'"
    unfolding DayFromYear_def a'_def b'_def c'_def ..
  have da: "a - a' = (if y mod 4 = 0 then 1 else 0)" unfolding a_def a'_def by (rule d4)
  have db: "b - b' = (if y mod 100 = 0 then 1 else 0)" unfolding b_def b'_def by (rule d100)
  have dc: "c - c' = (if y mod 400 = 0 then 1 else 0)" unfolding c_def c'_def by (rule d400)
  have "year_length y = 365 + (a - a') - (b - b') + (c - c')"
    unfolding da db dc
    by (auto simp: year_length_def leap_year_def dest: mod_100_4 mod_400_100)
  with n o show ?thesis by (simp add: algebra_simps)
qed

lemma year_length_pos: "365 \<le> year_length y"
  by (simp add: year_length_def)

lemma DayFromYear_1970: "DayFromYear 1970 = 0"
  by (simp add: DayFromYear_def)

lemma DayFromYear_10000: "DayFromYear 10000 = 2932897"
  by (simp add: DayFromYear_def)

lemma DayFromYear_mono: "a \<le> b \<Longrightarrow> DayFromYear a \<le> DayFromYear b"
proof (induction b rule: int_ge_induct)
  case base
  show ?case by simp
next
  case (step i)
  then show ?case
    using DayFromYear_step [of i] year_length_pos [of i] by linarith
qed

lemma DayFromYear_sum:
  "1970 \<le> y \<Longrightarrow> DayFromYear y = sum_list (map year_length [1970..y - 1])"
proof (induction y rule: int_ge_induct)
  case base
  show ?case by (simp add: DayFromYear_1970)
next
  case (step i)
  have "[1970..i + 1 - 1] = [1970..i - 1] @ [i]"
    using step.hyps by (simp add: upto_rec2)
  then show ?case
    using step.IH DayFromYear_step [of i] by simp
qed

lemma DayFromYear_upper: "400 * DayFromYear y \<le> 146097 * (y - 1970) + 589"
proof -
  define a b c where "a = (y - 1969) div 4" and "b = (y - 1901) div 100"
    and "c = (y - 1601) div 400"
  have d: "DayFromYear y = 365 * (y - 1970) + a - b + c"
    unfolding DayFromYear_def a_def b_def c_def ..
  have "4 * a \<le> y - 1969" unfolding a_def by (rule div_bounds) simp
  moreover have "y - 1901 < 100 * b + 100" unfolding b_def by (rule div_bounds) simp
  moreover have "400 * c \<le> y - 1601" unfolding c_def by (rule div_bounds) simp
  ultimately show ?thesis unfolding d by (simp add: algebra_simps)
qed

lemma DayFromYear_lower: "146097 * (y - 1970) - 506 \<le> 400 * DayFromYear y"
proof -
  define a b c where "a = (y - 1969) div 4" and "b = (y - 1901) div 100"
    and "c = (y - 1601) div 400"
  have d: "DayFromYear y = 365 * (y - 1970) + a - b + c"
    unfolding DayFromYear_def a_def b_def c_def ..
  have "y - 1969 < 4 * a + 4" unfolding a_def by (rule div_bounds) simp
  moreover have "100 * b \<le> y - 1901" unfolding b_def by (rule div_bounds) simp
  moreover have "y - 1601 < 400 * c + 400" unfolding c_def by (rule div_bounds) simp
  ultimately show ?thesis unfolding d by (simp add: algebra_simps)
qed

text \<open>The year of a day is the year that the day lies in.\<close>

lemma YearFromDay_bounds:
  "DayFromYear (YearFromDay day) \<le> day \<and> day < DayFromYear (YearFromDay day + 1)"
proof -
  define k where "k = (400 * day) div 146097"
  define e where "e = 1970 + k"
  have k1: "146097 * k \<le> 400 * day" unfolding k_def by (rule div_bounds) simp
  have k2: "400 * day < 146097 * k + 146097" unfolding k_def by (rule div_bounds) simp
  have lo: "DayFromYear (e - 1) \<le> day"
    using DayFromYear_upper [of "e - 1"] k1 unfolding e_def by (simp add: algebra_simps)
  have hi: "day < DayFromYear (e + 1 + 1)"
    using DayFromYear_lower [of "e + 1 + 1"] k2 unfolding e_def by (simp add: algebra_simps)
  have y: "YearFromDay day =
     (if DayFromYear e \<le> day then (if DayFromYear (e + 1) \<le> day then e + 1 else e) else e - 1)"
    unfolding YearFromDay_def Let_def e_def k_def ..
  have m: "e - 1 + 1 = e" by simp
  show ?thesis
    unfolding y using lo hi by (auto simp: m)
qed

lemma YearFromDay_range:
  assumes "0 \<le> day" "day < 2932897"
  shows "1970 \<le> YearFromDay day" "YearFromDay day \<le> 9999"
proof -
  let ?y = "YearFromDay day"
  have b: "DayFromYear ?y \<le> day" "day < DayFromYear (?y + 1)"
    using YearFromDay_bounds by simp_all
  show "1970 \<le> ?y"
  proof (rule ccontr)
    assume "\<not> 1970 \<le> ?y"
    then have "?y + 1 \<le> 1970" by simp
    then have "DayFromYear (?y + 1) \<le> DayFromYear 1970" by (rule DayFromYear_mono)
    with b(2) assms(1) show False by (simp add: DayFromYear_1970)
  qed
  show "?y \<le> 9999"
  proof (rule ccontr)
    assume "\<not> ?y \<le> 9999"
    then have "10000 \<le> ?y" by simp
    then have "DayFromYear 10000 \<le> DayFromYear ?y" by (rule DayFromYear_mono)
    with b(1) assms(2) show False by (simp add: DayFromYear_10000)
  qed
qed

text \<open>
  The month and the date of a day within its year are a month of the year and a day of
  that month, with as many days before it in the year.
\<close>

lemma days_before_month_values:
  "days_before_month y 1 = 0"
  "days_before_month y 2 = 31"
  "days_before_month y 3 = 59 + (if leap_year y then 1 else 0)"
  "days_before_month y 4 = 90 + (if leap_year y then 1 else 0)"
  "days_before_month y 5 = 120 + (if leap_year y then 1 else 0)"
  "days_before_month y 6 = 151 + (if leap_year y then 1 else 0)"
  "days_before_month y 7 = 181 + (if leap_year y then 1 else 0)"
  "days_before_month y 8 = 212 + (if leap_year y then 1 else 0)"
  "days_before_month y 9 = 243 + (if leap_year y then 1 else 0)"
  "days_before_month y 10 = 273 + (if leap_year y then 1 else 0)"
  "days_before_month y 11 = 304 + (if leap_year y then 1 else 0)"
  "days_before_month y 12 = 334 + (if leap_year y then 1 else 0)"
  by (simp_all add: days_before_month_def month_length_def upto_rec1)

lemma month_length_values:
  "month_length y 1 = 31" "month_length y 2 = (if leap_year y then 29 else 28)"
  "month_length y 3 = 31" "month_length y 4 = 30" "month_length y 5 = 31"
  "month_length y 6 = 30" "month_length y 7 = 31" "month_length y 8 = 31"
  "month_length y 9 = 30" "month_length y 10 = 31" "month_length y 11 = 30"
  "month_length y 12 = 31"
  by (simp_all add: month_length_def)

lemma month_and_date:
  assumes l: "l = (if leap_year y then 1 else 0)" and d: "0 \<le> dwy" "dwy < 365 + l"
  shows "1 \<le> MonthFromDay l dwy + 1 \<and> MonthFromDay l dwy + 1 \<le> 12 \<and>
         1 \<le> DateFromDay l dwy \<and>
         DateFromDay l dwy \<le> month_length y (MonthFromDay l dwy + 1) \<and>
         days_before_month y (MonthFromDay l dwy + 1) + (DateFromDay l dwy - 1) = dwy"
proof (cases "leap_year y")
  case True
  with l have l1: "l = 1" by simp
  show ?thesis
    using d True unfolding l1 MonthFromDay_def DateFromDay_def Let_def
    by (auto simp: days_before_month_values month_length_values)
next
  case False
  with l have l0: "l = 0" by simp
  show ?thesis
    using d False unfolding l0 MonthFromDay_def DateFromDay_def Let_def
    by (auto simp: days_before_month_values month_length_values)
qed

text \<open>Numbers below 10000 as text, padded with zeros, digit by digit.\<close>

lemma toStringRadix_10:
  "toStringRadix 10 n =
     (if n < 10 then [radixDigits ! n] else toStringRadix 10 (n div 10) @ [radixDigits ! (n mod 10)])"
  by (subst toStringRadix.simps) simp

lemma digits_1: "n < 10 \<Longrightarrow> toStringRadix 10 n = [radixDigits ! n]"
  by (subst toStringRadix_10) simp

lemma digits_2:
  assumes "10 \<le> n" "n < 100"
  shows "toStringRadix 10 n = [radixDigits ! (n div 10), radixDigits ! (n mod 10)]"
proof -
  have "n div 10 < 10" using assms(2) by arith
  then have "toStringRadix 10 (n div 10) = [radixDigits ! (n div 10)]" by (rule digits_1)
  with assms(1) show ?thesis by (subst toStringRadix_10) simp
qed

lemma digits_3:
  assumes "100 \<le> n" "n < 1000"
  shows "toStringRadix 10 n =
    [radixDigits ! (n div 100), radixDigits ! (n div 10 mod 10), radixDigits ! (n mod 10)]"
proof -
  have a: "10 \<le> n div 10" "n div 10 < 100" using assms by arith+
  have b: "n div 10 div 10 = n div 100" by (simp add: div_mult2_eq [symmetric])
  have "toStringRadix 10 (n div 10) = [radixDigits ! (n div 100), radixDigits ! (n div 10 mod 10)]"
    using digits_2 [OF a] unfolding b .
  with assms(1) show ?thesis by (subst toStringRadix_10) simp
qed

lemma digits_4:
  assumes "1000 \<le> n" "n < 10000"
  shows "toStringRadix 10 n =
    [radixDigits ! (n div 1000), radixDigits ! (n div 100 mod 10),
     radixDigits ! (n div 10 mod 10), radixDigits ! (n mod 10)]"
proof -
  have a: "100 \<le> n div 10" "n div 10 < 1000" using assms by arith+
  have b: "n div 10 div 100 = n div 1000" "n div 10 div 10 = n div 100"
    by (simp_all add: div_mult2_eq [symmetric])
  have "toStringRadix 10 (n div 10) =
    [radixDigits ! (n div 1000), radixDigits ! (n div 100 mod 10), radixDigits ! (n div 10 mod 10)]"
    using digits_3 [OF a] unfolding b .
  with assms(1) show ?thesis by (subst toStringRadix_10) simp
qed

lemma zero_digit: "radixDigits ! 0 = CHR ''0''"
  by (simp add: radixDigits_def)

lemma two_digits:
  assumes "n < 100"
  shows "padStart 2 (toStringRadix 10 n) = [radixDigits ! (n div 10), radixDigits ! (n mod 10)]"
proof (cases "n < 10")
  case True
  then show ?thesis by (simp add: padStart_def digits_1 zero_digit numeral_3_eq_3 numeral_2_eq_2)
next
  case False
  then have "10 \<le> n" by simp
  then show ?thesis using assms by (simp add: padStart_def digits_2)
qed

lemma four_digits:
  assumes "n < 10000"
  shows "padStart 4 (toStringRadix 10 n) =
    [radixDigits ! (n div 1000), radixDigits ! (n div 100 mod 10),
     radixDigits ! (n div 10 mod 10), radixDigits ! (n mod 10)]"
proof -
  consider "n < 10" | "10 \<le> n" "n < 100" | "100 \<le> n" "n < 1000" | "1000 \<le> n" "n < 10000"
    using assms by linarith
  then show ?thesis
  proof cases
    case 1
    then show ?thesis by (simp add: padStart_def digits_1 zero_digit numeral_3_eq_3 numeral_2_eq_2)
  next
    case 2
    then have "n div 10 < 10" by arith
    then have "n div 10 mod 10 = n div 10" by simp
    moreover have "n div 100 = 0" "n div 1000 = 0" using 2 by simp_all
    ultimately show ?thesis using 2 by (simp add: padStart_def digits_2 zero_digit numeral_3_eq_3 numeral_2_eq_2)
  next
    case 3
    then have "n div 100 < 10" by arith
    then have "n div 100 mod 10 = n div 100" by simp
    moreover have "n div 1000 = 0" using 3 by simp
    ultimately show ?thesis using 3 by (simp add: padStart_def digits_3 zero_digit numeral_3_eq_3 numeral_2_eq_2)
  next
    case 4
    then show ?thesis by (simp add: padStart_def digits_4)
  qed
qed

lemma decimal_digits_all: "list_all (\<lambda>k. decimal_digit (int k) = radixDigits ! k) [0..<10]"
  by code_simp

lemma decimal_digit_nth:
  assumes "k < 10"
  shows "decimal_digit (int k) = radixDigits ! k"
  using decimal_digits_all assms by (simp add: list_all_iff)

lemma two_digits_text:
  assumes "0 \<le> m" "m < 100"
  shows "padStart 2 (toStringRadix 10 (nat m)) = [decimal_digit (m div 10), decimal_digit (m mod 10)]"
proof -
  obtain n where m: "m = int n" using assms(1) by (auto dest: zero_le_imp_eq_int)
  have n: "n < 100" using assms(2) m by simp
  have a: "int n div 10 = int (n div 10)" "int n mod 10 = int (n mod 10)"
    by (simp_all add: zdiv_int zmod_int)
  have b: "n div 10 < 10" using n by arith
  have c: "n mod 10 < 10" by simp
  show ?thesis
    unfolding m a nat_int decimal_digit_nth [OF b] decimal_digit_nth [OF c]
    by (rule two_digits [OF n])
qed

lemma four_digits_text:
  assumes "0 \<le> y" "y < 10000"
  shows "padStart 4 (toStringRadix 10 (nat y)) =
    [decimal_digit (y div 1000), decimal_digit (y div 100 mod 10),
     decimal_digit (y div 10 mod 10), decimal_digit (y mod 10)]"
proof -
  obtain n where y: "y = int n" using assms(1) by (auto dest: zero_le_imp_eq_int)
  have n: "n < 10000" using assms(2) y by simp
  have a: "int n div 1000 = int (n div 1000)" "int n div 100 mod 10 = int (n div 100 mod 10)"
    "int n div 10 mod 10 = int (n div 10 mod 10)" "int n mod 10 = int (n mod 10)"
    by (simp_all add: zdiv_int zmod_int)
  have b: "n div 1000 < 10" using n by arith
  have c: "n div 100 mod 10 < 10" "n div 10 mod 10 < 10" "n mod 10 < 10" by simp_all
  show ?thesis
    unfolding y a nat_int decimal_digit_nth [OF b] decimal_digit_nth [OF c(1)]
      decimal_digit_nth [OF c(2)] decimal_digit_nth [OF c(3)]
    by (rule four_digits [OF n])
qed

text \<open>The text \<open>toISOString\<close> starts with is the text of the civil date of the day.\<close>

lemma isoDateOfDay_civil:
  assumes "0 \<le> day" "day < 2932897"
  shows "\<exists>y m d. isoDateOfDay day = date_text y m d \<and> 1970 \<le> y \<and> y \<le> 9999 \<and>
           1 \<le> m \<and> m \<le> 12 \<and> 1 \<le> d \<and> d \<le> month_length y m \<and>
           civil_day_number y m d = day"
proof -
  define y where "y = YearFromDay day"
  define l where "l = DaysInYear y - 365"
  define dwy where "dwy = day - DayFromYear y"
  define m where "m = MonthFromDay l dwy + 1"
  define d where "d = DateFromDay l dwy"
  have yr: "1970 \<le> y" "y \<le> 9999"
    unfolding y_def using assms by (rule YearFromDay_range)+
  have b: "DayFromYear y \<le> day" "day < DayFromYear (y + 1)"
    unfolding y_def using YearFromDay_bounds by simp_all
  have l: "l = (if leap_year y then 1 else 0)"
    unfolding l_def DaysInYear_year_length year_length_def by simp
  have w: "0 \<le> dwy" "dwy < 365 + l"
    using b DayFromYear_step [of y] unfolding dwy_def l year_length_def by (simp_all split: if_splits)
  have md: "1 \<le> m \<and> m \<le> 12 \<and> 1 \<le> d \<and> d \<le> month_length y m \<and>
            days_before_month y m + (d - 1) = dwy"
    unfolding m_def d_def by (rule month_and_date [OF l w])
  have d31: "d \<le> 31"
    using md by (auto simp: month_length_def split: if_splits)
  have c: "civilFromDays day = (y, m, d)"
    unfolding civilFromDays_def Let_def y_def l_def dwy_def m_def d_def ..
  have ty: "isoYear y = [decimal_digit (y div 1000), decimal_digit (y div 100 mod 10),
     decimal_digit (y div 10 mod 10), decimal_digit (y mod 10)]"
    using yr by (simp add: isoYear_def four_digits_text)
  have tm: "padStart 2 (toStringRadix 10 (nat m)) = [decimal_digit (m div 10), decimal_digit (m mod 10)]"
    using md by (intro two_digits_text) linarith+
  have td: "padStart 2 (toStringRadix 10 (nat d)) = [decimal_digit (d div 10), decimal_digit (d mod 10)]"
    using md d31 by (intro two_digits_text) linarith+
  have t: "isoDateOfDay day = date_text y m d"
    unfolding isoDateOfDay_def c prod.case ty tm td date_text_def by simp
  have n: "civil_day_number y m d = day"
    using md DayFromYear_sum [OF yr(1)] unfolding civil_day_number_def dwy_def by linarith
  from t yr md n show ?thesis by blast
qed

lemma day_of_instant:
  fixes t :: int
  assumes "0 \<le> t" "t + 24 * 60 * 60 * 1000 < 253402300800000"
  shows "0 \<le> (t + 24 * 60 * 60 * 1000) div msPerDay"
    "(t + 24 * 60 * 60 * 1000) div msPerDay < 2932897"
    "(t + 24 * 60 * 60 * 1000) div msPerDay = t div (24 * 60 * 60 * 1000) + 1"
proof -
  define q where "q = (t + 86400000) div 86400000"
  have q1: "86400000 * q \<le> t + 86400000" unfolding q_def by (rule div_bounds) simp
  have q2: "t + 86400000 < 86400000 * q + 86400000" unfolding q_def by (rule div_bounds) simp
  have "0 \<le> q" using q2 assms(1) by linarith
  moreover have "q < 2932897" using q1 assms(2) by linarith
  moreover have "q = t div 86400000 + 1"
    unfolding q_def by (rule div_add_self2) simp
  ultimately show "0 \<le> (t + 24 * 60 * 60 * 1000) div msPerDay"
    "(t + 24 * 60 * 60 * 1000) div msPerDay < 2932897"
    "(t + 24 * 60 * 60 * 1000) div msPerDay = t div (24 * 60 * 60 * 1000) + 1"
    unfolding q_def msPerDay_def by simp_all
qed

section \<open>Properties of the search handler\<close>

text \<open>The search that \<open>contains\<close> performs finds exactly the contiguous substrings.\<close>

lemma contains_iff_sublist: "contains pat s = sublist pat s"
  by (induction s) (auto simp: sublist_Cons_right)

text \<open>
  A text that \<open>getIATACode\<close> resolves has no syntax character of regular expressions:
  it is white space around letters, blanks and underscores. The pattern the fallback
  builds from it is therefore plain text.
\<close>

lemma lowerAZ_all_plain: "list_all (\<lambda>c. c \<notin> set syntaxCharacters) lowerAZ"
  by code_simp

lemma whiteSpace_all_plain: "list_all (\<lambda>c. c \<notin> set syntaxCharacters) whiteSpace"
  by code_simp

lemma syntax_all_caseless: "list_all (\<lambda>c. charToLower c = c) syntaxCharacters"
  by code_simp

lemma table_keys_all_literal: "list_all isLiteralPattern (map fst cityToIATA)"
  by code_simp

lemma prototype_keys_all_literal: "list_all isLiteralPattern objectPrototypeKeys"
  by code_simp

lemma lowerAZ_not_syntax: "isLowerAZ c \<Longrightarrow> c \<notin> set syntaxCharacters"
  using lowerAZ_all_plain by (simp add: isLowerAZ_def list_all_iff)

lemma whiteSpace_not_syntax: "isWhiteSpace c \<Longrightarrow> c \<notin> set syntaxCharacters"
  using whiteSpace_all_plain by (simp add: isWhiteSpace_def list_all_iff)

lemma syntax_charToLower: "c \<in> set syntaxCharacters \<Longrightarrow> charToLower c = c"
  using syntax_all_caseless by (simp add: list_all_iff)

lemma table_keys_literal: "map_of cityToIATA k = Some v \<Longrightarrow> isLiteralPattern k"
  using table_keys_all_literal by (force simp: list_all_iff dest: map_of_SomeD)

lemma prototype_keys_literal: "k \<in> set objectPrototypeKeys \<Longrightarrow> isLiteralPattern k"
  using prototype_keys_all_literal by (simp add: list_all_iff)


lemma resolved_key_literal:
  assumes "getIATACode (Some c) = Some v"
  shows "isLiteralPattern (trim (toLowerCase c))"
proof (cases "length (trim (toLowerCase c)) = 3 \<and> list_all isLowerAZ (trim (toLowerCase c))")
  case True
  then show ?thesis
    by (auto simp: isLiteralPattern_def list_all_iff dest: lowerAZ_not_syntax)
next
  case False
  with assms show ?thesis
    by (auto simp: getIATACode_def object_get_def Let_def
          intro: table_keys_literal prototype_keys_literal split: option.splits if_splits)
qed

lemma dropWhile_keeps: "y \<in> set ys \<Longrightarrow> P y \<or> y \<in> set (dropWhile P ys)"
  by (induction ys) auto

lemma trim_keeps: "x \<in> set s \<Longrightarrow> isWhiteSpace x \<or> x \<in> set (trim s)"
proof -
  assume "x \<in> set s"
  then have "isWhiteSpace x \<or> x \<in> set (rev (dropWhile isWhiteSpace s))"
    using dropWhile_keeps [of x s isWhiteSpace] by simp
  then have "isWhiteSpace x \<or> x \<in> set (dropWhile isWhiteSpace (rev (dropWhile isWhiteSpace s)))"
    using dropWhile_keeps [of x "rev (dropWhile isWhiteSpace s)" isWhiteSpace] by blast
  then show ?thesis by (simp add: trim_def)
qed

lemma literal_trim: "isLiteralPattern (trim s) \<Longrightarrow> isLiteralPattern s"
  unfolding isLiteralPattern_def list_all_iff
  using trim_keeps whiteSpace_not_syntax by blast

lemma literal_toLowerCase: "isLiteralPattern (toLowerCase s) \<Longrightarrow> isLiteralPattern s"
  unfolding isLiteralPattern_def list_all_iff toLowerCase_def
  using syntax_charToLower by (metis image_eqI set_map)

lemma resolved_text_literal: "getIATACode (Some c) = Some v \<Longrightarrow> isLiteralPattern c"
  by (rule literal_toLowerCase, rule literal_trim, rule resolved_key_literal)

lemma text_filter_literal:
  "t \<noteq> [] \<Longrightarrow> isLiteralPattern t \<Longrightarrow> text_filter env (Some t) = Inr (Some (RegExp_i t))"
  by (simp add: text_filter_def new_RegExp_def)

lemma build_query_resolved:
  assumes "q_from q = Some from_text" "from_text \<noteq> []" "q_to q = Some to_text" "to_text \<noteq> []"
    and "getIATACode (Some from_text) = Some originCode"
    and "getIATACode (Some to_text) = Some destCode"
  shows "build_query env q =
           Inr \<lparr> fq_from = Some (RegExp_i from_text), fq_to = Some (RegExp_i to_text),
                 fq_departureDate = date_filter env (q_date q) \<rparr>"
  using assms
  by (simp add: build_query_def text_filter_literal resolved_text_literal)

lemma castable_iff_window: "castable (date_filter env (q_date q)) \<longleftrightarrow> spec_window env q \<noteq> None"
  by (auto simp: date_filter_def spec_window_def timeClip_def msPerDay_def Let_def
        split: option.splits)

lemma in_range_window:
  "spec_window env q = Some w \<Longrightarrow>
   in_range (date_filter env (q_date q)) dep \<longleftrightarrow>
     (case w of None \<Rightarrow> True
      | Some t \<Rightarrow> (case dep of None \<Rightarrow> False | Some x \<Rightarrow> t \<le> x \<and> x < t + 24 * 60 * 60 * 1000))"
  by (auto simp: date_filter_def spec_window_def timeClip_def msPerDay_def Let_def
        split: option.splits if_splits)

lemma selects_resolved:
  assumes "isLiteralPattern from_text" "isLiteralPattern to_text" "spec_window env q = Some w"
  shows "filter (selects env \<lparr> fq_from = Some (RegExp_i from_text), fq_to = Some (RegExp_i to_text),
                 fq_departureDate = date_filter env (q_date q) \<rparr>) docs
         = spec_selection from_text to_text w docs"
  unfolding spec_selection_def
  by (rule filter_cong [OF refl])
     (simp add: selects_def assms(1,2) contains_ignoring_case_def contains_iff_sublist
        in_range_window [OF assms(3)])

lemma fallback_resolved:
  assumes "q_from q = Some from_text" "from_text \<noteq> []" "q_to q = Some to_text" "to_text \<noteq> []"
    and "getIATACode (Some from_text) = Some originCode"
    and "getIATACode (Some to_text) = Some destCode"
  shows "fst (fallback env q err calls) =
      (case (spec_window env q, Flight_collection env) of
         (Some window, Inr docs) \<Rightarrow>
           (200, DatabaseResult
                   (sort_key sf_price (spec_selection from_text to_text window docs))
                   (length (spec_selection from_text to_text window docs))
                   ''database'' ''Amadeus API unavailable, showing cached results'')
       | _ \<Rightarrow> (500, FailedBody ''Failed to fetch flights'' (message err)))"
proof (cases "spec_window env q")
  case None
  then have "\<not> castable (date_filter env (q_date q))"
    by (simp add: castable_iff_window)
  then show ?thesis
    using None by (simp add: fallback_def build_query_resolved [OF assms] Flight_find_sorted_def)
next
  case (Some w)
  then have c: "castable (date_filter env (q_date q))"
    by (simp add: castable_iff_window)
  have lit: "isLiteralPattern from_text" "isLiteralPattern to_text"
    using assms(5,6) by (auto dest: resolved_text_literal)
  show ?thesis
    using Some c
    by (simp add: fallback_def build_query_resolved [OF assms] Flight_find_sorted_def
          selects_resolved [OF lit Some] split: sum.splits)
qed

lemma search_handler_provider_failed:
  assumes "q_from q = Some from_text" "from_text \<noteq> []" "q_to q = Some to_text" "to_text \<noteq> []"
    and "getIATACode (Some from_text) = Some originCode"
    and "getIATACode (Some to_text) = Some destCode"
    and "departure_date env q = Inr date"
    and "flightOffersSearch env (provider_params env q originCode destCode date) = Inl err"
  shows "search_handler env q =
           fallback env q err [ProviderSearch (provider_params env q originCode destCode date)]"
  using assms by (simp add: search_handler_def Let_def)

lemma provider_failure_response:
  assumes "q_from q = Some from_text" "from_text \<noteq> []" "q_to q = Some to_text" "to_text \<noteq> []"
    and "getIATACode (Some from_text) = Some originCode"
    and "getIATACode (Some to_text) = Some destCode"
    and "departure_date env q = Inr date"
    and "flightOffersSearch env (provider_params env q originCode destCode date) = Inl err"
  shows "fst (search_handler env q) =
      (case (spec_window env q, Flight_collection env) of
         (Some window, Inr docs) \<Rightarrow>
           (200, DatabaseResult
                   (sort_key sf_price (spec_selection from_text to_text window docs))
                   (length (spec_selection from_text to_text window docs))
                   ''database'' ''Amadeus API unavailable, showing cached results'')
       | _ \<Rightarrow> (500, FailedBody ''Failed to fetch flights'' (message err)))"
  using search_handler_provider_failed [OF assms] fallback_resolved [OF assms(1-6)]
  by simp

text \<open>The example surroundings, evaluated.\<close>

lemmas example_defs =
  provider_down_def search_lahore_dubai_def example_parse_def
  flight_early_def flight_noon_def flight_next_day_def flight_elsewhere_def stored_flight_def

lemma lahore_dubai_codes:
  "getIATACode (Some ''LAHORE'') = Some (Str ''LHE'')" "getIATACode (Some ''dubai'') = Some (Str ''DXB'')"
  by (simp_all add: getIATACode_def object_get_def cityToIATA_def string_defs)

lemma selection_whole_day:
  "spec_selection ''LAHORE'' ''dubai'' (Some 0)
     [flight_early, flight_noon, flight_next_day, flight_elsewhere] = [flight_early, flight_noon]"
  by (simp add: spec_selection_def example_defs string_defs sublist_code)

lemma selection_from_noon:
  "spec_selection ''LAHORE'' ''dubai'' (Some 43200000)
     [flight_early, flight_noon, flight_next_day, flight_elsewhere] = [flight_noon, flight_next_day]"
  by (simp add: spec_selection_def example_defs string_defs sublist_code)

lemma sort_whole_day: "sort_key sf_price [flight_early, flight_noon] = [flight_noon, flight_early]"
  by (simp add: example_defs)

lemma sort_from_noon: "sort_key sf_price [flight_noon, flight_next_day] = [flight_next_day, flight_noon]"
  by (simp add: example_defs)

lemma provider_down_response:
  assumes "date = None \<or> date = Some d \<and> d \<noteq> []"
  shows "fst (search_handler provider_down (search_lahore_dubai date)) =
      (case spec_window provider_down (search_lahore_dubai date) of
         Some window \<Rightarrow>
           (200, DatabaseResult
                   (sort_key sf_price (spec_selection ''LAHORE'' ''dubai'' window
                      [flight_early, flight_noon, flight_next_day, flight_elsewhere]))
                   (length (spec_selection ''LAHORE'' ''dubai'' window
                      [flight_early, flight_noon, flight_next_day, flight_elsewhere]))
                   ''database'' ''Amadeus API unavailable, showing cached results'')
       | _ \<Rightarrow> (500, FailedBody ''Failed to fetch flights'' ''network''))"
proof -
  obtain dt where dt: "departure_date provider_down (search_lahore_dubai date) = Inr dt"
    using assms
    by (auto simp: departure_date_def search_lahore_dubai_def provider_down_def toISODate_def
          maxTimeValue_def)
  have "fst (search_handler provider_down (search_lahore_dubai date)) =
      (case (spec_window provider_down (search_lahore_dubai date), Flight_collection provider_down) of
         (Some window, Inr docs) \<Rightarrow>
           (200, DatabaseResult
                   (sort_key sf_price (spec_selection ''LAHORE'' ''dubai'' window docs))
                   (length (spec_selection ''LAHORE'' ''dubai'' window docs))
                   ''database'' ''Amadeus API unavailable, showing cached results'')
       | _ \<Rightarrow> (500, FailedBody ''Failed to fetch flights'' (message (ProviderError ''network''))))"
    by (rule provider_failure_response [OF _ _ _ _ lahore_dubai_codes dt])
       (simp_all add: search_lahore_dubai_def provider_down_def)
  then show ?thesis
    by (simp add: provider_down_def split: option.splits)
qed

text \<open>
  C1, as amended. When the provider call fails after validation and code resolution have
  succeeded, the handler answers 200 with the stored flights whose origin and destination
  contain the raw query texts (not the resolved codes), upper and lower case taken as
  equal, restricted, when a date was given, to the departures in the 24 hours that begin
  at the instant the date text denotes, sorted by ascending price, with the marker
  \<open>database\<close>. An empty list is answered in the same way. The answer is 500 only when
  the fallback query itself fails: the collection fails, or the query is rejected because
  the date text denotes no valid date or the end of its 24 hours is past the range of
  dates.
\<close>

theorem fallback_on_provider_failure:
  assumes "q_from q = Some from_text" "from_text \<noteq> []" "q_to q = Some to_text" "to_text \<noteq> []"
    and "getIATACode (Some from_text) = Some originCode"
    and "getIATACode (Some to_text) = Some destCode"
    and "departure_date env q = Inr date"
    and "flightOffersSearch env (provider_params env q originCode destCode date) = Inl err"
  shows "fst (search_handler env q) =
      (case (spec_window env q, Flight_collection env) of
         (Some window, Inr docs) \<Rightarrow>
           (200, DatabaseResult
                   (sort_key sf_price (spec_selection from_text to_text window docs))
                   (length (spec_selection from_text to_text window docs))
                   ''database'' ''Amadeus API unavailable, showing cached results'')
       | _ \<Rightarrow> (500, FailedBody ''Failed to fetch flights'' (message err)))
     \<and> (\<forall>flights n marker msg.
          fst (search_handler env q) = (200, DatabaseResult flights n marker msg) \<longrightarrow>
          sorted (map sf_price flights))"
proof -
  have r: "fst (search_handler env q) =
      (case (spec_window env q, Flight_collection env) of
         (Some window, Inr docs) \<Rightarrow>
           (200, DatabaseResult
                   (sort_key sf_price (spec_selection from_text to_text window docs))
                   (length (spec_selection from_text to_text window docs))
                   ''database'' ''Amadeus API unavailable, showing cached results'')
       | _ \<Rightarrow> (500, FailedBody ''Failed to fetch flights'' (message err)))"
    by (rule provider_failure_response [OF assms])
  have "sorted (map sf_price flights)"
    if "fst (search_handler env q) = (200, DatabaseResult flights n marker msg)"
    for flights n marker msg
    using that unfolding r by (auto split: option.splits sum.splits)
  with r show ?thesis by blast
qed

theorem fallback_on_provider_failure_witness:
  "fst (search_handler provider_down (search_lahore_dubai (Some ''1970-01-01''))) =
     (200, DatabaseResult [flight_noon, flight_early] 2 ''database''
             ''Amadeus API unavailable, showing cached results'') \<and>
   sorted (map sf_price [flight_noon, flight_early])"
proof -
  have w: "spec_window provider_down (search_lahore_dubai (Some ''1970-01-01'')) = Some (Some 0)"
    by (simp add: spec_window_def example_defs maxTimeValue_def)
  have dt: "departure_date provider_down (search_lahore_dubai (Some ''1970-01-01'')) = Inr ''1970-01-01''"
    by (simp add: departure_date_def search_lahore_dubai_def)
  have c: "Flight_collection provider_down =
      Inr [flight_early, flight_noon, flight_next_day, flight_elsewhere]"
    by (simp add: provider_down_def)
  have q: "q_from (search_lahore_dubai (Some ''1970-01-01'')) = Some ''LAHORE''" "''LAHORE'' \<noteq> []"
    "q_to (search_lahore_dubai (Some ''1970-01-01'')) = Some ''dubai''" "''dubai'' \<noteq> []"
    by (simp_all add: search_lahore_dubai_def)
  have f: "flightOffersSearch provider_down
      (provider_params provider_down (search_lahore_dubai (Some ''1970-01-01''))
         (Str ''LHE'') (Str ''DXB'') ''1970-01-01'') = Inl (ProviderError ''network'')"
    by (simp add: provider_down_def)
  note t = fallback_on_provider_failure [OF q lahore_dubai_codes dt f]
  from t have r: "fst (search_handler provider_down (search_lahore_dubai (Some ''1970-01-01''))) =
     (200, DatabaseResult [flight_noon, flight_early] 2 ''database''
             ''Amadeus API unavailable, showing cached results'')"
    unfolding w c prod.case option.case sum.case selection_whole_day sort_whole_day by simp
  with t have "sorted (map sf_price [flight_noon, flight_early])"
    by blast
  with r show ?thesis by blast
qed

text \<open>
  C1 as stated restricts the fallback to the calendar day of the supplied date. For the
  date text \<open>1970-01-01T12:00:00Z\<close> the handler returns a flight that departs on
  the next calendar day and leaves out a flight of the supplied calendar day between the
  same cities.
\<close>

theorem fallback_window_counterexample:
  "fst (search_handler provider_down (search_lahore_dubai (Some ''1970-01-01T12:00:00Z''))) =
     (200, DatabaseResult [flight_next_day, flight_noon] 2 ''database''
             ''Amadeus API unavailable, showing cached results'') \<and>
   Date_parse provider_down ''1970-01-01T12:00:00Z'' = Some 43200000 \<and>
   sf_departureDate flight_next_day = Some 108000000 \<and>
   (108000000 :: int) div msPerDay \<noteq> 43200000 div msPerDay \<and>
   sf_departureDate flight_early = Some 21600000 \<and>
   (21600000 :: int) div msPerDay = 43200000 div msPerDay"
proof -
  have w: "spec_window provider_down (search_lahore_dubai (Some ''1970-01-01T12:00:00Z''))
             = Some (Some 43200000)"
    by (simp add: spec_window_def example_defs maxTimeValue_def)
  have "fst (search_handler provider_down (search_lahore_dubai (Some ''1970-01-01T12:00:00Z''))) =
     (200, DatabaseResult [flight_next_day, flight_noon] 2 ''database''
             ''Amadeus API unavailable, showing cached results'')"
    using provider_down_response [of "Some ''1970-01-01T12:00:00Z''" "''1970-01-01T12:00:00Z''"]
    unfolding w option.case selection_from_noon sort_from_noon by simp
  then show ?thesis
    by (simp add: example_defs msPerDay_def)
qed

text \<open>The 24 hours are one UTC calendar day exactly when they begin at a UTC midnight,
  as they do for a date text without a time of day.\<close>

lemma div_eq_iff_between:
  fixes d k x :: int
  assumes "0 < d"
  shows "(d * k \<le> x \<and> x < d * k + d) \<longleftrightarrow> x div d = k"
proof
  assume a: "d * k \<le> x \<and> x < d * k + d"
  have "x = d * k + (x - d * k)" by simp
  moreover have "0 \<le> x - d * k" "x - d * k < d" using a by auto
  ultimately show "x div d = k" by (rule int_div_pos_eq)
next
  assume e: "x div d = k"
  have "x = d * (x div d) + x mod d" by simp
  moreover have "0 \<le> x mod d" "x mod d < d" using assms by simp_all
  ultimately have "d * (x div d) \<le> x \<and> x < d * (x div d) + d" by linarith
  then show "d * k \<le> x \<and> x < d * k + d" unfolding e .
qed

lemma window_is_calendar_day_at_midnight:
  fixes t x :: int
  assumes "t mod msPerDay = 0"
  shows "(t \<le> x \<and> x < t + 24 * 60 * 60 * 1000) \<longleftrightarrow> x div msPerDay = t div msPerDay"
proof -
  obtain k where k: "t = 86400000 * k"
    using assms by (auto simp: msPerDay_def elim: dvdE)
  have "(86400000 * k \<le> x \<and> x < 86400000 * k + 86400000) \<longleftrightarrow> x div 86400000 = k"
    by (rule div_eq_iff_between) simp
  then show ?thesis
    unfolding k msPerDay_def by simp
qed

lemma map_throwing_Inl:
  "x \<in> set xs \<Longrightarrow> f x = Inl e \<Longrightarrow> \<exists>e'. map_throwing f xs = Inl e'"
  by (induction xs) (auto split: sum.splits)

lemma fallback_bodies:
  "fst (fallback env q err calls) = (500, FailedBody ''Failed to fetch flights'' (message err)) \<or>
   (\<exists>flights. fst (fallback env q err calls) =
      (200, DatabaseResult flights (length flights) ''database''
              ''Amadeus API unavailable, showing cached results''))"
  by (auto simp: fallback_def split: sum.splits)

text \<open>The example of the claim: no fare detail for the first traveler.\<close>

lemma translate_without_fare_detail:
  assumes "case travelerPricings offer of [] \<Rightarrow> True | tp # _ \<Rightarrow> fareDetailsBySegment tp = []"
  shows "\<exists>e. translate env from_text to_text originCode destCode response offer = Inl e"
  using assms
  by (auto simp: translate_def Let_def split: list.splits option.splits)

lemma translate_offer_without_fare_detail:
  "translate env from_text to_text originCode destCode response offer_without_fare_detail
     = Inl (TypeError ''cabin'')"
  by (simp add: translate_def offer_without_fare_detail_def good_offer_def good_segment_def Let_def)

text \<open>
  C3. When the provider answers and the translation of any one of its offers throws, the
  whole batch is abandoned: the handler does what it does when the provider call fails,
  the \<open>catch\<close> block with the database fallback, and its response is the fallback's
  (the stored flights with the marker \<open>database\<close>, or the 500 of a failed fallback
  query), not the provider's offers without the offending one.
\<close>

theorem failed_translation_abandons_batch:
  assumes "q_from q = Some from_text" "from_text \<noteq> []" "q_to q = Some to_text" "to_text \<noteq> []"
    and "getIATACode (Some from_text) = Some originCode"
    and "getIATACode (Some to_text) = Some destCode"
    and "departure_date env q = Inr date"
    and "flightOffersSearch env (provider_params env q originCode destCode date) = Inr response"
    and "offer \<in> set (data response)"
    and "translate env from_text to_text originCode destCode response offer = Inl e"
  shows "\<exists>err. search_handler env q =
             fallback env q err [ProviderSearch (provider_params env q originCode destCode date)] \<and>
           (fst (search_handler env q) =
              (500, FailedBody ''Failed to fetch flights'' (message err)) \<or>
            (\<exists>flights. fst (search_handler env q) =
               (200, DatabaseResult flights (length flights) ''database''
                       ''Amadeus API unavailable, showing cached results'')))"
proof -
  from assms(9,10) obtain err where
    "map_throwing (translate env from_text to_text originCode destCode response) (data response)
       = Inl err"
    by (blast dest: map_throwing_Inl)
  with assms(1-8) have
    "search_handler env q =
       fallback env q err [ProviderSearch (provider_params env q originCode destCode date)]"
    by (simp add: search_handler_def Let_def)
  then show ?thesis
    using fallback_bodies [of env q err "[ProviderSearch (provider_params env q originCode destCode date)]"]
    by auto
qed

theorem failed_translation_abandons_batch_witness:
  "fst (search_handler (provider_up [good_offer, offer_without_fare_detail])
          (search_lahore_dubai (Some ''1970-01-01''))) =
     (200, DatabaseResult [flight_noon, flight_early] 2 ''database''
             ''Amadeus API unavailable, showing cached results'')"
proof -
  let ?env = "provider_up [good_offer, offer_without_fare_detail]"
  let ?q = "search_lahore_dubai (Some ''1970-01-01'')"
  have q: "q_from ?q = Some ''LAHORE''" "''LAHORE'' \<noteq> []"
    "q_to ?q = Some ''dubai''" "''dubai'' \<noteq> []"
    by (simp_all add: search_lahore_dubai_def)
  have dt: "departure_date ?env ?q = Inr ''1970-01-01''"
    by (simp add: departure_date_def search_lahore_dubai_def)
  have f: "flightOffersSearch ?env
      (provider_params ?env ?q (Str ''LHE'') (Str ''DXB'') ''1970-01-01'')
        = Inr \<lparr> data = [good_offer, offer_without_fare_detail], carriers = None \<rparr>"
    by (simp add: provider_up_def provider_down_def)
  have m: "offer_without_fare_detail
      \<in> set (data \<lparr> data = [good_offer, offer_without_fare_detail], carriers = None \<rparr>)"
    by simp
  from failed_translation_abandons_batch
         [OF q lahore_dubai_codes dt f m translate_offer_without_fare_detail]
  obtain err where
    "search_handler ?env ?q = fallback ?env ?q err
       [ProviderSearch (provider_params ?env ?q (Str ''LHE'') (Str ''DXB'') ''1970-01-01'')]"
    by blast
  then have "fst (search_handler ?env ?q) =
      (case (spec_window ?env ?q, Flight_collection ?env) of
         (Some window, Inr docs) \<Rightarrow>
           (200, DatabaseResult
                   (sort_key sf_price (spec_selection ''LAHORE'' ''dubai'' window docs))
                   (length (spec_selection ''LAHORE'' ''dubai'' window docs))
                   ''database'' ''Amadeus API unavailable, showing cached results'')
       | _ \<Rightarrow> (500, FailedBody ''Failed to fetch flights'' (message err)))"
    by (simp add: fallback_resolved [OF q lahore_dubai_codes])
  moreover have "spec_window ?env ?q = Some (Some 0)"
    by (simp add: spec_window_def provider_up_def example_defs maxTimeValue_def)
  moreover have "Flight_collection ?env =
      Inr [flight_early, flight_noon, flight_next_day, flight_elsewhere]"
    by (simp add: provider_up_def provider_down_def)
  ultimately show ?thesis
    by (simp only: prod.case option.case sum.case selection_whole_day sort_whole_day)
       simp
qed

lemma provider_called_with_default_date:
  assumes "q_from q = Some from_text" "from_text \<noteq> []" "q_to q = Some to_text" "to_text \<noteq> []"
    and "getIATACode (Some from_text) = Some originCode"
    and "getIATACode (Some to_text) = Some destCode"
    and "q_date q = None \<or> q_date q = Some []"
    and "- maxTimeValue \<le> Date_now env + 24 * 60 * 60 * 1000"
    and "Date_now env + 24 * 60 * 60 * 1000 \<le> maxTimeValue"
  shows "\<exists>params later. snd (search_handler env q) = ProviderSearch params # later \<and>
           sp_departureDate params = isoDateOfDay ((Date_now env + 24 * 60 * 60 * 1000) div msPerDay)"
proof -
  have d: "departure_date env q = Inr (isoDateOfDay ((Date_now env + 24 * 60 * 60 * 1000) div msPerDay))"
    using assms(7-9) by (auto simp: departure_date_def toISODate_def)
  let ?date = "isoDateOfDay ((Date_now env + 24 * 60 * 60 * 1000) div msPerDay)"
  let ?p = "provider_params env q originCode destCode ?date"
  have "\<exists>later. snd (search_handler env q) = ProviderSearch ?p # later"
    using assms(1-6) d
    by (auto simp: search_handler_def Let_def fallback_def split: sum.splits)
  then show ?thesis
    by (auto simp: provider_params_def)
qed

lemma provider_date_at:
  assumes "- maxTimeValue \<le> t + 24 * 60 * 60 * 1000" "t + 24 * 60 * 60 * 1000 \<le> maxTimeValue"
  shows "provider_date (snd (search_handler (provider_down \<lparr> Date_now := t \<rparr>)
                               (search_lahore_dubai None)))
         = Some (isoDateOfDay ((t + 24 * 60 * 60 * 1000) div msPerDay))"
proof -
  have "\<exists>params later.
     snd (search_handler (provider_down \<lparr> Date_now := t \<rparr>) (search_lahore_dubai None))
       = ProviderSearch params # later \<and>
     sp_departureDate params =
       isoDateOfDay ((Date_now (provider_down \<lparr> Date_now := t \<rparr>) + 24 * 60 * 60 * 1000) div msPerDay)"
    by (rule provider_called_with_default_date [OF _ _ _ _ lahore_dubai_codes])
       (use assms in \<open>simp_all add: search_lahore_dubai_def\<close>)
  then show ?thesis by auto
qed

lemma isoDateOfDay_examples:
  "isoDateOfDay 1 = ''1970-01-02''" "isoDateOfDay 19783 = ''2024-03-01''"
  by code_simp+

lemma civil_date_examples:
  "date_text 1970 1 2 = ''1970-01-02''" "civil_day_number 1970 1 2 = 1"
  "date_text 2024 3 1 = ''2024-03-01''" "civil_day_number 2024 3 1 = 19783"
  by code_simp+

text \<open>
  C5, as amended. When the request has no travel date (none, or an empty one), its
  cities resolve, and the instant 24 hours after \<open>Date.now()\<close> lies in the years 1970 to
  9999, the provider is called with the UTC calendar date of that instant and nothing
  else of it: the text \<open>YYYY-MM-DD\<close> of the year, month and day of the Gregorian
  calendar whose day, counted from 1 January 1970, is the UTC day of that instant, which
  is the day after the UTC day of the request. The time of day is not sent.
\<close>

theorem default_departure_date:
  assumes "q_from q = Some from_text" "from_text \<noteq> []" "q_to q = Some to_text" "to_text \<noteq> []"
    and "getIATACode (Some from_text) = Some originCode"
    and "getIATACode (Some to_text) = Some destCode"
    and "q_date q = None \<or> q_date q = Some []"
    and "0 \<le> Date_now env"
    and "Date_now env + 24 * 60 * 60 * 1000 < 253402300800000"
  shows "\<exists>params later y m d.
           snd (search_handler env q) = ProviderSearch params # later \<and>
           sp_departureDate params = date_text y m d \<and>
           1970 \<le> y \<and> y \<le> 9999 \<and> 1 \<le> m \<and> m \<le> 12 \<and> 1 \<le> d \<and> d \<le> month_length y m \<and>
           civil_day_number y m d = (Date_now env + 24 * 60 * 60 * 1000) div (24 * 60 * 60 * 1000) \<and>
           civil_day_number y m d = Date_now env div (24 * 60 * 60 * 1000) + 1"
proof -
  have r: "- maxTimeValue \<le> Date_now env + 24 * 60 * 60 * 1000"
    "Date_now env + 24 * 60 * 60 * 1000 \<le> maxTimeValue"
    using assms(8,9) by (simp_all add: maxTimeValue_def)
  obtain params later where p: "snd (search_handler env q) = ProviderSearch params # later"
    "sp_departureDate params = isoDateOfDay ((Date_now env + 24 * 60 * 60 * 1000) div msPerDay)"
    using provider_called_with_default_date [OF assms(1-7) r] by blast
  note n = day_of_instant [OF assms(8,9)]
  obtain y m d where c:
    "isoDateOfDay ((Date_now env + 24 * 60 * 60 * 1000) div msPerDay) = date_text y m d"
    "1970 \<le> y" "y \<le> 9999" "1 \<le> m" "m \<le> 12" "1 \<le> d" "d \<le> month_length y m"
    "civil_day_number y m d = (Date_now env + 24 * 60 * 60 * 1000) div msPerDay"
    using isoDateOfDay_civil [OF n(1,2)] by blast
  have t: "sp_departureDate params = date_text y m d"
    using p(2) c(1) by (rule trans)
  have e1: "civil_day_number y m d = (Date_now env + 24 * 60 * 60 * 1000) div (24 * 60 * 60 * 1000)"
    using c(8) unfolding msPerDay_def .
  have e2: "civil_day_number y m d = Date_now env div (24 * 60 * 60 * 1000) + 1"
    using c(8) n(3) by (rule trans)
  from p(1) t c(2-7) e1 e2 show ?thesis by blast
qed

theorem default_departure_date_witness:
  "\<exists>params later y m d.
     snd (search_handler provider_down (search_lahore_dubai None)) = ProviderSearch params # later \<and>
     sp_departureDate params = ''1970-01-02'' \<and>
     sp_departureDate params = date_text y m d \<and>
     1970 \<le> y \<and> y \<le> 9999 \<and> 1 \<le> m \<and> m \<le> 12 \<and> 1 \<le> d \<and> d \<le> month_length y m \<and>
     civil_day_number y m d = 1"
proof -
  have "\<exists>params later y m d.
     snd (search_handler provider_down (search_lahore_dubai None)) = ProviderSearch params # later \<and>
     sp_departureDate params = date_text y m d \<and>
     1970 \<le> y \<and> y \<le> 9999 \<and> 1 \<le> m \<and> m \<le> 12 \<and> 1 \<le> d \<and> d \<le> month_length y m \<and>
     civil_day_number y m d
       = (Date_now provider_down + 24 * 60 * 60 * 1000) div (24 * 60 * 60 * 1000) \<and>
     civil_day_number y m d = Date_now provider_down div (24 * 60 * 60 * 1000) + 1"
    by (rule default_departure_date [OF _ _ _ _ lahore_dubai_codes])
       (simp_all add: search_lahore_dubai_def provider_down_def)
  then obtain params later y m d where w:
    "snd (search_handler provider_down (search_lahore_dubai None)) = ProviderSearch params # later"
    "sp_departureDate params = date_text y m d"
    "1970 \<le> y" "y \<le> 9999" "1 \<le> m" "m \<le> 12" "1 \<le> d" "d \<le> month_length y m"
    "civil_day_number y m d = Date_now provider_down div (24 * 60 * 60 * 1000) + 1"
    by blast
  have one: "Date_now provider_down div (24 * 60 * 60 * 1000) + 1 = 1"
    by (simp add: provider_down_def)
  have "provider_date (snd (search_handler provider_down (search_lahore_dubai None)))
        = Some ''1970-01-02''"
    using provider_date_at [of 43200000]
    by (simp add: maxTimeValue_def msPerDay_def isoDateOfDay_examples(1) provider_down_def)
  then have v: "sp_departureDate params = ''1970-01-02''"
    unfolding w(1) by simp
  from w(1) v w(2-8) w(9) [unfolded one] show ?thesis by blast
qed

text \<open>
  C5 as stated has the date sent lie exactly 24 hours after the moment of the request,
  and not at tomorrow's midnight. A request at 12:00 UTC sends the same date as a request
  at 00:00 UTC of that day: the date whose first instant, tomorrow's UTC midnight, is 12
  hours after the request.
\<close>

theorem default_date_is_tomorrows_date:
  "provider_date (snd (search_handler (provider_down \<lparr> Date_now := 43200000 \<rparr>)
                         (search_lahore_dubai None))) = Some ''1970-01-02'' \<and>
   provider_date (snd (search_handler (provider_down \<lparr> Date_now := 0 \<rparr>)
                         (search_lahore_dubai None))) = Some ''1970-01-02'' \<and>
   toISODate (24 * 60 * 60 * 1000) = Inr ''1970-01-02'' \<and>
   (24 * 60 * 60 * 1000 :: int) - 43200000 = 12 * 60 * 60 * 1000"
proof -
  have "provider_date (snd (search_handler (provider_down \<lparr> Date_now := 43200000 \<rparr>)
                         (search_lahore_dubai None))) = Some ''1970-01-02''"
    using provider_date_at [of 43200000]
    by (simp add: maxTimeValue_def msPerDay_def isoDateOfDay_examples(1))
  moreover have "provider_date (snd (search_handler (provider_down \<lparr> Date_now := 0 \<rparr>)
                         (search_lahore_dubai None))) = Some ''1970-01-02''"
    using provider_date_at [of 0]
    by (simp add: maxTimeValue_def msPerDay_def isoDateOfDay_examples(1))
  moreover have "toISODate (24 * 60 * 60 * 1000) = Inr ''1970-01-02''"
    by (simp add: toISODate_def maxTimeValue_def msPerDay_def isoDateOfDay_examples(1))
  ultimately show ?thesis by simp
qed

text \<open>
  C6, as amended. When the origin text or the destination text is missing (absent or
  empty), the handler answers 400 with the one message
  \<open>From and To cities are required\<close>, whichever of the two is missing, and calls no
  external system.
\<close>

theorem missing_city_rejected:
  assumes "q_from q = None \<or> q_from q = Some [] \<or> q_to q = None \<or> q_to q = Some []"
  shows "search_handler env q = ((400, ErrorBody ''From and To cities are required''), [])"
  using assms by (auto simp: search_handler_def split: option.splits)

theorem missing_city_rejected_witness:
  "search_handler provider_down
     \<lparr> q_from = None, q_to = Some ''dubai'', q_date = None, q_returnDate = None,
       q_adults = None, q_travelClass = None \<rparr>
   = ((400, ErrorBody ''From and To cities are required''), [])"
  by (rule missing_city_rejected) simp

text \<open>
  C6 as stated has the error identify the missing field. A request without origin and a
  request without destination get the same response.
\<close>

theorem missing_field_not_identified:
  "search_handler provider_down
     \<lparr> q_from = None, q_to = Some ''dubai'', q_date = None, q_returnDate = None,
       q_adults = None, q_travelClass = None \<rparr>
   = search_handler provider_down
     \<lparr> q_from = Some ''lahore'', q_to = None, q_date = None, q_returnDate = None,
       q_adults = None, q_travelClass = None \<rparr>"
  by (simp add: search_handler_def)

section \<open>Properties of the login handler\<close>

text \<open>The two rejections the handler writes out are the same response.\<close>

lemma login_rejections_identical:
  assumes "User_collection env = Inr users"
    and "find (\<lambda>u. u_email u = l_email unknown) users = None"
    and "find (\<lambda>u. u_email u = l_email known) users = Some u"
    and "bcrypt_compare env (l_password known) (u_password u) = Inr False"
  shows "login_handler env unknown = (401, LoginError ''Invalid credentials'') \<and>
         login_handler env known = (401, LoginError ''Invalid credentials'') \<and>
         login_handler env unknown = login_handler env known"
  using assms by (simp add: login_handler_def User_findOne_def)

lemma login_rejections_example:
  "login_handler example_login_env \<lparr> l_email = ''bob@example.com'', l_password = JStr ''secret'' \<rparr>
     = (401, LoginError ''Invalid credentials'') \<and>
   login_handler example_login_env \<lparr> l_email = ''ada@example.com'', l_password = JStr ''guess'' \<rparr>
     = (401, LoginError ''Invalid credentials'')"
  by (simp add: login_handler_def User_findOne_def bcrypt_compare_def example_login_env_def
        example_users_def)

text \<open>When \<open>bcrypt.compare\<close> rejects, the \<open>catch\<close> block answers 500 with the message
  of the error.\<close>

lemma login_compare_rejects:
  assumes "User_collection env = Inr users"
    and "find (\<lambda>u. u_email u = l_email body) users = Some u"
    and "bcrypt_compare env (l_password body) (u_password u) = Inl e"
  shows "login_handler env body = (500, LoginError (message e))"
  using assms by (simp add: login_handler_def User_findOne_def)

text \<open>A wrong credential that is no text (a body without password, or with \<open>null\<close>, a
  number, a list) tells a known email from an unknown one, in every surroundings.\<close>

lemma login_password_not_text:
  assumes "User_collection env = Inr users"
    and "find (\<lambda>u. u_email u = l_email unknown) users = None"
    and "find (\<lambda>u. u_email u = l_email known) users = Some u"
    and "typeof (l_password known) \<noteq> ''string''"
  shows "login_handler env unknown = (401, LoginError ''Invalid credentials'') \<and>
         login_handler env known =
           (500, LoginError (''Illegal arguments: '' @ typeof (l_password known) @ '', string'')) \<and>
         login_handler env unknown \<noteq> login_handler env known"
  using assms
  by (cases "l_password known")
     (simp_all add: login_handler_def User_findOne_def bcrypt_compare_def)

lemma login_success_example:
  "login_handler example_login_env \<lparr> l_email = ''ada@example.com'', l_password = JStr ''secret'' \<rparr>
     = (200, LoginSuccess ''Login successful'' ''token:u1''
               (''u1'', ''Ada'', ''Khan'', ''ada@example.com''))"
  by (simp add: login_handler_def User_findOne_def bcrypt_compare_def example_login_env_def
        example_users_def)

text \<open>
  C8. The claim: a login with an email no user has and a login with the email of a user
  and a wrong credential get the same response, so that nothing tells the two cases
  apart. The code answers both with 401 and \<open>Invalid credentials\<close> when the wrong
  credential is a text. When the body has no password, the unknown email still gets that
  401, and the known email gets 500 with the message of the error \<open>bcrypt.compare\<close>
  raised: the password is passed on unchecked.
\<close>

theorem login_enumeration_signal:
  "login_handler example_login_env \<lparr> l_email = ''bob@example.com'', l_password = JUndefined \<rparr>
     = (401, LoginError ''Invalid credentials'') \<and>
   login_handler example_login_env \<lparr> l_email = ''ada@example.com'', l_password = JUndefined \<rparr>
     = (500, LoginError ''Illegal arguments: undefined, string'')"
  by (simp add: login_handler_def User_findOne_def bcrypt_compare_def example_login_env_def
        example_users_def)

section \<open>Properties of the booking handler\<close>


lemma route_without_token:
  "authorization req = None \<Longrightarrow>
   bookings_route env stored req = ((401, BookingError ''Access token required''), stored)"
  by (simp add: bookings_route_def authenticateToken_def)







end
